theory Spec2Isabelle
  imports Main "HOL-Library.Word"
begin

unbundle bit_operations_syntax

section \<open>libxdp: program handles, run configuration, ordering, pinning, attaching\<close>

text \<open>
  A shallow embedding of \<^verbatim>\<open>lib/libxdp/libxdp.c\<close>. Functions that return a negative
  errno in C return the same \<open>int\<close> here; a function that mutates the handle it is
  given returns the updated handle next to its result. A call that does not return
  (a NULL pointer is dereferenced, or a type chain is followed forever) is \<open>None\<close>.
\<close>

subsection \<open>Error numbers (Linux \<^verbatim>\<open>errno.h\<close>)\<close>

definition EPERM :: int where "EPERM = 1"
definition ENOENT :: int where "ENOENT = 2"
definition EBADF :: int where "EBADF = 9"
definition ENOMEM :: int where "ENOMEM = 12"
definition EEXIST :: int where "EEXIST = 17"
definition ENOTDIR :: int where "ENOTDIR = 20"
definition EISDIR :: int where "EISDIR = 21"
definition EINVAL :: int where "EINVAL = 22"
definition ENAMETOOLONG :: int where "ENAMETOOLONG = 36"
definition ENOTEMPTY :: int where "ENOTEMPTY = 39"
definition EBUSY :: int where "EBUSY = 16"
definition EOPNOTSUPP :: int where "EOPNOTSUPP = 95"

text \<open>On Linux \<^verbatim>\<open>ENOTSUP\<close> is defined as \<^verbatim>\<open>EOPNOTSUPP\<close>.\<close>

definition ENOTSUP :: int where "ENOTSUP = EOPNOTSUPP"

subsection \<open>C strings and byte arrays\<close>

text \<open>
  A C string is the bytes before its terminating NUL. \<open>strcmp\<close> returns the
  difference of the first pair of bytes that differ, read as \<^verbatim>\<open>unsigned char\<close>, the
  terminator being 0 (C fixes only the sign of the result).
\<close>

definition NUL :: char where "NUL = CHR 0x00"

definition byte :: "char \<Rightarrow> int" where
  "byte c = int (of_char c)"

fun strcmp :: "string \<Rightarrow> string \<Rightarrow> int" where
  "strcmp [] [] = 0"
| "strcmp [] (y # ys) = - byte y"
| "strcmp (x # xs) [] = byte x"
| "strcmp (x # xs) (y # ys) = (if x \<noteq> y then byte x - byte y else strcmp xs ys)"

text \<open>\<open>memcmp a b n\<close> on arrays that hold at least \<open>n\<close> bytes.\<close>

fun memcmp :: "8 word list \<Rightarrow> 8 word list \<Rightarrow> nat \<Rightarrow> int" where
  "memcmp xs ys 0 = 0"
| "memcmp (x # xs) (y # ys) (Suc n) = (if x \<noteq> y then uint x - uint y else memcmp xs ys n)"
| "memcmp xs ys (Suc n) = 0"

text \<open>
  Modelled from the spec: \<^verbatim>\<open>check_snprintf\<close> is declared in \<^verbatim>\<open>util.h\<close>, which is not among
  the sources. It formats into a buffer of \<open>buf_len\<close> bytes and fails when the text and
  its terminator do not fit.
\<close>

definition check_snprintf :: "nat \<Rightarrow> string \<Rightarrow> int" where
  "check_snprintf buf_len s = (if length s \<ge> buf_len then - ENAMETOOLONG else 0)"

subsection \<open>Type information (BTF), as libbpf presents it\<close>

datatype btf_kind =
    BTF_KIND_UNKN | BTF_KIND_INT | BTF_KIND_PTR | BTF_KIND_ARRAY | BTF_KIND_STRUCT
  | BTF_KIND_UNION | BTF_KIND_ENUM | BTF_KIND_FWD | BTF_KIND_TYPEDEF | BTF_KIND_VOLATILE
  | BTF_KIND_CONST | BTF_KIND_RESTRICT | BTF_KIND_FUNC | BTF_KIND_FUNC_PROTO
  | BTF_KIND_VAR | BTF_KIND_DATASEC

record btf_array =
  arr_type :: nat
  index_type :: nat
  nelems :: "32 word"

record btf_member =
  m_name_off :: nat
  m_type :: nat
  m_offset :: nat

record btf_var_secinfo =
  vsi_type :: nat
  vsi_offset :: nat
  vsi_size :: nat

text \<open>
  \<open>struct btf_type\<close>: \<open>size_or_type\<close> is the union of \<^verbatim>\<open>size\<close> and \<^verbatim>\<open>type\<close>; the data
  that follows the type in memory is \<open>t_array\<close> (\<^verbatim>\<open>btf_array(t)\<close>), \<open>t_members\<close>
  (\<^verbatim>\<open>btf_members(t)\<close>), \<open>t_linkage\<close> (\<^verbatim>\<open>btf_var(t)->linkage\<close>) and \<open>t_secinfos\<close>
  (\<^verbatim>\<open>btf_var_secinfos(t)\<close>), each read by the code only after the kind is checked;
  \<^verbatim>\<open>btf_vlen\<close> is the length of the member or section list.
\<close>

record btf_type =
  name_off :: nat
  t_kind :: btf_kind
  size_or_type :: nat
  t_array :: btf_array
  t_members :: "btf_member list"
  t_linkage :: nat
  t_secinfos :: "btf_var_secinfo list"

text \<open>
  \<open>struct btf\<close>: the address of the object, its types (type id \<open>i \<ge> 1\<close> is the
  \<open>i\<close>-th entry, id 0 is void) and its string section (raw bytes, names NUL-terminated).
\<close>

record btf =
  btf_addr :: nat
  types :: "btf_type list"
  strings :: string

definition btf_void :: btf_type where
  "btf_void = \<lparr> name_off = 0, t_kind = BTF_KIND_UNKN, size_or_type = 0,
     t_array = \<lparr> arr_type = 0, index_type = 0, nelems = 0 \<rparr>,
     t_members = [], t_linkage = 0, t_secinfos = [] \<rparr>"

definition btf__get_nr_types :: "btf \<Rightarrow> nat" where
  "btf__get_nr_types b = length (types b)"

definition btf__type_by_id :: "btf \<Rightarrow> nat \<Rightarrow> btf_type option" where
  "btf__type_by_id b type_id =
     (if type_id > btf__get_nr_types b then None
      else if type_id = 0 then Some btf_void
      else Some (types b ! (type_id - 1)))"

definition btf__name_by_offset :: "btf \<Rightarrow> nat \<Rightarrow> string option" where
  "btf__name_by_offset b off =
     (if off < length (strings b)
      then Some (takeWhile (\<lambda>c. c \<noteq> NUL) (drop off (strings b)))
      else None)"

definition btf_is_mod :: "btf_type \<Rightarrow> bool" where
  "btf_is_mod t = (t_kind t = BTF_KIND_VOLATILE \<or> t_kind t = BTF_KIND_CONST
                   \<or> t_kind t = BTF_KIND_RESTRICT)"

definition btf_is_typedef :: "btf_type \<Rightarrow> bool" where
  "btf_is_typedef t = (t_kind t = BTF_KIND_TYPEDEF)"

definition btf_is_ptr :: "btf_type \<Rightarrow> bool" where
  "btf_is_ptr t = (t_kind t = BTF_KIND_PTR)"

definition btf_is_array :: "btf_type \<Rightarrow> bool" where
  "btf_is_array t = (t_kind t = BTF_KIND_ARRAY)"

definition btf_is_struct :: "btf_type \<Rightarrow> bool" where
  "btf_is_struct t = (t_kind t = BTF_KIND_STRUCT)"

definition btf_is_var :: "btf_type \<Rightarrow> bool" where
  "btf_is_var t = (t_kind t = BTF_KIND_VAR)"

definition btf_is_datasec :: "btf_type \<Rightarrow> bool" where
  "btf_is_datasec t = (t_kind t = BTF_KIND_DATASEC)"

definition BTF_VAR_STATIC :: nat where "BTF_VAR_STATIC = 0"
definition BTF_VAR_GLOBAL_ALLOCATED :: nat where "BTF_VAR_GLOBAL_ALLOCATED = 1"

subsection \<open>The program handle\<close>

text \<open>
  \<open>struct bpf_program\<close> is libbpf's; the handle points to it. The pointer is kept with
  what libbpf reports about the program and never changes: the address of the object
  that holds it, its index there, its name, its section title and its size in bytes.
\<close>

record bpf_program =
  bp_obj :: nat
  bp_idx :: nat
  bp_name :: string
  bp_title :: string
  bp_size :: nat

definition bpf_program__name :: "bpf_program \<Rightarrow> string" where
  "bpf_program__name bp = bp_name bp"

definition bpf_program__size :: "bpf_program \<Rightarrow> nat" where
  "bpf_program__size bp = bp_size bp"

definition BPF_TAG_SIZE :: nat where "BPF_TAG_SIZE = 8"

text \<open>
  \<open>struct xdp_program\<close>. A pointer that may be NULL is an option; \<open>bpf_obj\<close> is the
  address of the source object.
\<close>

record xdp_program =
  bpf_prog :: "bpf_program option"
  bpf_obj :: "nat option"
  btf :: "btf option"
  prog_fd :: int
  link_fd :: int
  link_pin_path :: "string option"
  prog_name :: "string option"
  prog_tag :: "8 word list"
  load_time :: "64 word"
  from_external_obj :: bool
  run_prio :: "32 word"
  chain_call_actions :: "32 word"

definition XDP_RUN_CONFIG_SEC :: string where
  "XDP_RUN_CONFIG_SEC = ''.xdp_run_config''"

text \<open>\<open>enum xdp_action\<close>: the index of a name in \<open>xdp_action_names\<close> is its action code.\<close>

definition XDP_ABORTED :: nat where "XDP_ABORTED = 0"
definition XDP_DROP :: nat where "XDP_DROP = 1"
definition XDP_PASS :: nat where "XDP_PASS = 2"
definition XDP_TX :: nat where "XDP_TX = 3"
definition XDP_REDIRECT :: nat where "XDP_REDIRECT = 4"

definition xdp_action_names :: "string list" where
  "xdp_action_names = [''XDP_ABORTED'', ''XDP_DROP'', ''XDP_PASS'', ''XDP_TX'', ''XDP_REDIRECT'']"

definition xdp_program__btf :: "xdp_program \<Rightarrow> btf option" where
  "xdp_program__btf xdp_prog = btf xdp_prog"

definition xdp_program__set_chain_call_enabled :: "xdp_program \<Rightarrow> nat \<Rightarrow> bool \<Rightarrow> xdp_program" where
  "xdp_program__set_chain_call_enabled prog action enabled =
     (if enabled
      then prog\<lparr>chain_call_actions := chain_call_actions prog OR push_bit action 1\<rparr>
      else prog\<lparr>chain_call_actions := chain_call_actions prog AND NOT (push_bit action 1)\<rparr>)"

definition xdp_program__chain_call_enabled :: "xdp_program \<Rightarrow> nat \<Rightarrow> bool" where
  "xdp_program__chain_call_enabled prog action =
     (chain_call_actions prog AND push_bit action 1 \<noteq> 0)"

definition xdp_program__run_prio :: "xdp_program \<Rightarrow> 32 word" where
  "xdp_program__run_prio prog = run_prio prog"

definition xdp_program__set_run_prio :: "xdp_program \<Rightarrow> 32 word \<Rightarrow> xdp_program" where
  "xdp_program__set_run_prio prog v = prog\<lparr>run_prio := v\<rparr>"

definition xdp_program__name :: "xdp_program \<Rightarrow> string option" where
  "xdp_program__name prog = prog_name prog"

subsection \<open>The metadata parser\<close>

text \<open>
  \<open>skip_mods_and_typedefs\<close> (every caller passes \<^verbatim>\<open>res_id = NULL\<close>). The loop reads
  \<open>t\<close> without a NULL check and has no bound, so an unknown type id or a cycle of
  typedefs gives no result.
\<close>

partial_function (option) skip_mods_and_typedefs :: "btf \<Rightarrow> nat \<Rightarrow> btf_type option" where
  "skip_mods_and_typedefs b type_id =
     (case btf__type_by_id b type_id of
        None \<Rightarrow> None
      | Some t \<Rightarrow>
          if btf_is_mod t \<or> btf_is_typedef t
          then skip_mods_and_typedefs b (size_or_type t)
          else Some t)"

text \<open>
  \<open>get_field_int\<close>: \<open>Some None\<close> is the C \<^verbatim>\<open>false\<close>, \<open>Some (Some n)\<close> is \<^verbatim>\<open>true\<close> with
  \<^verbatim>\<open>*res = n\<close>.
\<close>

definition get_field_int :: "btf \<Rightarrow> btf_member \<Rightarrow> 32 word option option" where
  "get_field_int b m =
     (case skip_mods_and_typedefs b (m_type m) of
        None \<Rightarrow> None
      | Some t \<Rightarrow>
          if \<not> btf_is_ptr t then Some None
          else (case btf__type_by_id b (size_or_type t) of
                  None \<Rightarrow> Some None
                | Some arr_t \<Rightarrow>
                    if \<not> btf_is_array arr_t then Some None
                    else Some (Some (nelems (t_array arr_t)))))"

fun get_xdp_action_from :: "string \<Rightarrow> nat \<Rightarrow> string list \<Rightarrow> nat option" where
  "get_xdp_action_from act_name i [] = None"
| "get_xdp_action_from act_name i (name # names) =
     (if strcmp act_name name = 0 then Some i
      else get_xdp_action_from act_name (Suc i) names)"

definition get_xdp_action :: "string \<Rightarrow> nat option" where
  "get_xdp_action act_name = get_xdp_action_from act_name 0 xdp_action_names"

text \<open>The first loop of \<open>xdp_parse_run_config\<close>: the first DATASEC named \<open>.xdp_run_config\<close>.\<close>

fun find_run_config_sec :: "btf \<Rightarrow> btf_type list \<Rightarrow> btf_type option option" where
  "find_run_config_sec b [] = Some None"
| "find_run_config_sec b (t # ts) =
     (if \<not> btf_is_datasec t then find_run_config_sec b ts
      else (case btf__name_by_offset b (name_off t) of
              None \<Rightarrow> None
            | Some name \<Rightarrow>
                if strcmp name XDP_RUN_CONFIG_SEC = 0 then Some (Some t)
                else find_run_config_sec b ts))"

text \<open>The loop over the members of the run-config struct.\<close>

fun parse_members :: "btf \<Rightarrow> btf_member list \<Rightarrow> xdp_program \<Rightarrow> (int \<times> xdp_program) option" where
  "parse_members b [] xdp_prog = Some (0, xdp_prog)"
| "parse_members b (m # ms) xdp_prog =
     (case btf__name_by_offset b (m_name_off m) of
        None \<Rightarrow> Some (- EINVAL, xdp_prog)
      | Some mname \<Rightarrow>
          if strcmp mname ''priority'' = 0 then
            (case get_field_int b m of
               None \<Rightarrow> None
             | Some None \<Rightarrow> Some (- EINVAL, xdp_prog)
             | Some (Some v) \<Rightarrow> parse_members b ms (xdp_prog\<lparr>run_prio := v\<rparr>))
          else
            (case get_xdp_action mname of
               Some act \<Rightarrow>
                 (case get_field_int b m of
                    None \<Rightarrow> None
                  | Some None \<Rightarrow> Some (- EINVAL, xdp_prog)
                  | Some (Some val) \<Rightarrow>
                      parse_members b ms
                        (xdp_program__set_chain_call_enabled xdp_prog act (val \<noteq> 0)))
             | None \<Rightarrow> Some (- ENOTSUP, xdp_prog)))"

text \<open>The body of the loop over the section's variables, for a variable whose name matched.\<close>

definition parse_var :: "btf \<Rightarrow> btf_var_secinfo \<Rightarrow> btf_type \<Rightarrow> xdp_program \<Rightarrow> (int \<times> xdp_program) option" where
  "parse_var b vi var xdp_prog =
     (if \<not> btf_is_var var then Some (- EINVAL, xdp_prog)
      else if t_linkage var \<noteq> BTF_VAR_GLOBAL_ALLOCATED \<and> t_linkage var \<noteq> BTF_VAR_STATIC
        then Some (- EOPNOTSUPP, xdp_prog)
      else (case skip_mods_and_typedefs b (size_or_type var) of
              None \<Rightarrow> None
            | Some def \<Rightarrow>
                if \<not> btf_is_struct def then Some (- EINVAL, xdp_prog)
                else if size_or_type def > vsi_size vi then Some (- EINVAL, xdp_prog)
                else parse_members b (t_members def) xdp_prog))"

fun parse_vars :: "btf \<Rightarrow> string \<Rightarrow> btf_var_secinfo list \<Rightarrow> xdp_program \<Rightarrow> (int \<times> xdp_program) option" where
  "parse_vars b struct_name [] xdp_prog = Some (- ENOENT, xdp_prog)"
| "parse_vars b struct_name (vi # vis) xdp_prog =
     (case btf__type_by_id b (vsi_type vi) of
        None \<Rightarrow> None
      | Some var \<Rightarrow>
          (case btf__name_by_offset b (name_off var) of
             None \<Rightarrow> None
           | Some name \<Rightarrow>
               if strcmp name struct_name \<noteq> 0 then parse_vars b struct_name vis xdp_prog
               else parse_var b vi var xdp_prog))"

definition xdp_parse_run_config :: "xdp_program \<Rightarrow> (int \<times> xdp_program) option" where
  "xdp_parse_run_config xdp_prog =
     (case xdp_program__btf xdp_prog of
        None \<Rightarrow> Some (- ENOENT, xdp_prog)
      | Some b \<Rightarrow>
          (case xdp_program__name xdp_prog of
             None \<Rightarrow> None
           | Some n \<Rightarrow>
               if check_snprintf 100 (''_'' @ n) \<noteq> 0
               then Some (check_snprintf 100 (''_'' @ n), xdp_prog)
               else (case find_run_config_sec b (types b) of
                       None \<Rightarrow> None
                     | Some None \<Rightarrow> Some (- ENOENT, xdp_prog)
                     | Some (Some sec) \<Rightarrow>
                         parse_vars b (''_'' @ n) (t_secinfos sec) xdp_prog)))"

subsection \<open>Ordering\<close>

definition cmp_by_tag_and_time :: "xdp_program \<Rightarrow> xdp_program \<Rightarrow> int" where
  "cmp_by_tag_and_time a b =
     (let cmp = memcmp (prog_tag a) (prog_tag b) BPF_TAG_SIZE in
      if cmp \<noteq> 0 then cmp
      else if load_time a \<noteq> load_time b then (if load_time a < load_time b then - 1 else 1)
      else 0)"

definition cmp_xdp_programs :: "xdp_program \<Rightarrow> xdp_program \<Rightarrow> int option" where
  "cmp_xdp_programs a b =
     (if run_prio a \<noteq> run_prio b then Some (if run_prio a < run_prio b then - 1 else 1)
      else (case (prog_name a, prog_name b) of
              (Some na, Some nb) \<Rightarrow>
                (let cmp = strcmp na nb in
                 if cmp \<noteq> 0 then Some cmp
                 else if prog_fd a \<ge> 0 \<and> prog_fd b < 0 then Some (- 1)
                 else if prog_fd a < 0 \<and> prog_fd b \<ge> 0 then Some 1
                 else (case (bpf_prog a, bpf_prog b) of
                         (Some pa, Some pb) \<Rightarrow>
                           if bpf_program__size pa \<noteq> bpf_program__size pb
                           then Some (if bpf_program__size pa < bpf_program__size pb then - 1 else 1)
                           else Some (cmp_by_tag_and_time a b)
                       | _ \<Rightarrow> Some (cmp_by_tag_and_time a b)))
            | _ \<Rightarrow> None))"

subsection \<open>The environment: descriptors, the filesystem, the kernel, the heap\<close>

text \<open>
  Everything below this subsection's primitives is the library's own code. The primitives
  stand for the system calls and the libbpf calls the library makes; their behaviour is
  the usual one on the state kept in \<open>world\<close>, and every one of them is written to
  \<open>trace\<close> when it is called. A primitive that can fail first takes the next entry of
  \<open>faults\<close>: a non-zero entry is the errno it fails with, without any other effect, so
  a schedule of faults makes it fail for any reason the real call can fail for; with an
  empty schedule it fails only as the state demands.

  A primitive returns the negated errno on failure; where the C code reads the raw return
  value \<open>-1\<close> of a system call instead of \<^verbatim>\<open>errno\<close>, the model applies \<open>rv\<close>.
\<close>

datatype fdesc = FD_PROG nat | FD_LINK nat | FD_DIR string

datatype inode = I_DIR | I_PIN fdesc

datatype alloc = A_HANDLE | A_STR string | A_BTF nat

datatype bpf_prog_type = BPF_PROG_TYPE_XDP | BPF_PROG_TYPE_EXT

datatype syscall =
    SYS_malloc alloc | SYS_free alloc
  | SYS_statfs string | SYS_mkdir string | SYS_open string | SYS_flock int | SYS_close int
  | SYS_unlink string | SYS_rmdir string | SYS_opendir string
  | SYS_bpf_prog_get_fd_by_id nat | SYS_bpf_obj_get_info_by_fd int | SYS_btf_get_from_id nat
  | SYS_btf_free nat | SYS_bpf_obj_pin int string | SYS_bpf_raw_tracepoint_open int
  | SYS_bpf_object_open string | SYS_bpf_object_load nat | SYS_bpf_object_close nat
  | SYS_bpf_set_link_xdp_fd int int "32 word"

text \<open>\<open>struct bpf_prog_info\<close>, the fields the library reads.\<close>

record bpf_prog_info =
  info_id :: nat
  info_name :: string
  info_tag :: "8 word list"
  info_load_time :: "64 word"
  info_btf_id :: nat

text \<open>
  A libbpf object: its programs (what a \<open>bpf_program\<close> pointer leads to: the descriptor
  once loaded, the program type, the attach target), its type information, the size and
  the content of its read-only data, which for the dispatcher is
  \<open>struct xdp_dispatcher_config\<close>.
\<close>

record obj_prog =
  op_name :: string
  op_title :: string
  op_size :: nat
  op_tag :: "8 word list"
  op_fd :: int
  op_type :: bpf_prog_type
  op_attach :: "(int \<times> string) option"

record xdp_dispatcher_config =
  num_progs_enabled :: "32 word"
  cfg_chain_call_actions :: "32 word list"

record bpf_object =
  o_progs :: "obj_prog list"
  o_btf :: "btf option"
  o_rodata :: "(nat \<times> xdp_dispatcher_config) option"
  o_loaded :: bool

text \<open>
  The state of the process and of the kernel: the filesystem (path to inode), the
  filesystem type \<^verbatim>\<open>statfs\<close> reports for a path, the environment variable
  \<^verbatim>\<open>XDP_BPFFS\<close>, the open descriptors, the programs and the type information the kernel
  holds by id, the XDP program attached to each interface (attach flag and program id),
  the kernel clock, the live libbpf objects by address, the object files on disk, the
  directories searched for the library's own object files, the live heap allocations, the
  fault schedule, the trace, and the static variables of \<open>find_bpffs\<close> and
  \<open>get_bpffs_dir\<close>: each function keeps a flag and a pointer that is read only when the
  flag is set, here one option that is \<open>Some\<close> when the flag is set.
\<close>

record world =
  fs :: "(string \<times> inode) list"
  fstypes :: "(string \<times> nat) list"
  env_bpffs :: "string option"
  fds :: "(int \<times> fdesc) list"
  kprogs :: "(nat \<times> bpf_prog_info) list"
  kbtfs :: "(nat \<times> btf) list"
  xdp_attached :: "(int \<times> 32 word \<times> nat) list"
  ktime :: "64 word"
  objs :: "(nat \<times> bpf_object) list"
  files :: "(string \<times> bpf_object) list"
  bpf_file_dirs :: "string list"
  heap :: "alloc list"
  faults :: "int list"
  trace :: "syscall list"
  bpf_mnt_cache :: "string option"
  bpffs_dir_cache :: "string option"

definition rv :: "int \<Rightarrow> int" where
  "rv e = (if e < 0 then - 1 else e)"

definition log_sys :: "syscall \<Rightarrow> world \<Rightarrow> world" where
  "log_sys s w = w\<lparr>trace := trace w @ [s]\<rparr>"

definition next_fault :: "world \<Rightarrow> int \<times> world" where
  "next_fault w = (case faults w of [] \<Rightarrow> (0, w) | e # es \<Rightarrow> (e, w\<lparr>faults := es\<rparr>))"

text \<open>A primitive \<open>f\<close> under the fault schedule: \<open>fail e\<close> is what a failure with errno \<open>e\<close> returns.\<close>

definition with_fault :: "syscall \<Rightarrow> (int \<Rightarrow> 'a) \<Rightarrow> (world \<Rightarrow> 'a \<times> world) \<Rightarrow> world \<Rightarrow> 'a \<times> world" where
  "with_fault s fail f w =
     (case next_fault (log_sys s w) of
        (e, w') \<Rightarrow> if e \<noteq> 0 then (fail (- \<bar>e\<bar>), w') else f w')"

subsubsection \<open>Heap\<close>

definition malloc :: "alloc \<Rightarrow> world \<Rightarrow> bool \<times> world" where
  "malloc a = with_fault (SYS_malloc a) (\<lambda>e. False) (\<lambda>w. (True, w\<lparr>heap := a # heap w\<rparr>))"

text \<open>Freeing what is not allocated (a second \<open>free\<close>) has no defined result.\<close>

definition free :: "alloc \<Rightarrow> world \<Rightarrow> world option" where
  "free a w =
     (if a \<in> set (heap w) then Some ((log_sys (SYS_free a) w)\<lparr>heap := remove1 a (heap w)\<rparr>)
      else None)"

text \<open>\<open>strdup\<close>, and \<open>free\<close> of a string that may be NULL.\<close>

definition strdup :: "string \<Rightarrow> world \<Rightarrow> string option \<times> world" where
  "strdup s w = (case malloc (A_STR s) w of (ok, w') \<Rightarrow> (if ok then Some s else None, w'))"

definition free_str :: "string option \<Rightarrow> world \<Rightarrow> world option" where
  "free_str p w = (case p of None \<Rightarrow> Some w | Some s \<Rightarrow> free (A_STR s) w)"

definition fresh_addr :: "world \<Rightarrow> nat" where
  "fresh_addr w = Suc (fold max (map fst (objs w) @ concat (map (\<lambda>a. case a of A_BTF n \<Rightarrow> [n] | _ \<Rightarrow> []) (heap w))) 0)"

subsubsection \<open>Descriptors\<close>

definition fresh_fd :: "(int \<times> fdesc) list \<Rightarrow> int" where
  "fresh_fd t = fold (\<lambda>p m. max (fst p + 1) m) t 3"

definition fd_install :: "fdesc \<Rightarrow> world \<Rightarrow> int \<times> world" where
  "fd_install d w = (fresh_fd (fds w), w\<lparr>fds := (fresh_fd (fds w), d) # fds w\<rparr>)"

definition sys_close :: "int \<Rightarrow> world \<Rightarrow> int \<times> world" where
  "sys_close fd =
     with_fault (SYS_close fd) (\<lambda>e. e)
       (\<lambda>w. if map_of (fds w) fd = None then (- EBADF, w)
            else (0, w\<lparr>fds := filter (\<lambda>p. fst p \<noteq> fd) (fds w)\<rparr>))"

subsubsection \<open>Filesystem\<close>

text \<open>The name of \<open>p\<close> in the directory \<open>d\<close>, when \<open>p\<close> is an entry of \<open>d\<close>.\<close>

definition child_name :: "string \<Rightarrow> string \<Rightarrow> string option" where
  "child_name d p =
     (if take (Suc (length d)) p = d @ ''/'' \<and> drop (Suc (length d)) p \<noteq> []
         \<and> CHR ''/'' \<notin> set (drop (Suc (length d)) p)
      then Some (drop (Suc (length d)) p) else None)"

definition dir_entries :: "(string \<times> inode) list \<Rightarrow> string \<Rightarrow> string list" where
  "dir_entries t d = concat (map (\<lambda>p. case child_name d (fst p) of None \<Rightarrow> [] | Some n \<Rightarrow> [n]) t)"

text \<open>The directory a path lies in: the path up to its last slash.\<close>

definition parent_dir :: "string \<Rightarrow> string" where
  "parent_dir p = rev (drop 1 (dropWhile (\<lambda>c. c \<noteq> CHR ''/'') (rev p)))"

definition fs_remove :: "string \<Rightarrow> world \<Rightarrow> world" where
  "fs_remove p w = w\<lparr>fs := filter (\<lambda>e. fst e \<noteq> p) (fs w)\<rparr>"

definition fs_create :: "string \<Rightarrow> inode \<Rightarrow> world \<Rightarrow> int \<times> world" where
  "fs_create p i w =
     (if map_of (fs w) p \<noteq> None then (- EEXIST, w)
      else if map_of (fs w) (parent_dir p) = None then (- ENOENT, w)
      else if map_of (fs w) (parent_dir p) \<noteq> Some I_DIR then (- ENOTDIR, w)
      else (0, w\<lparr>fs := fs w @ [(p, i)]\<rparr>))"

definition sys_statfs :: "string \<Rightarrow> world \<Rightarrow> nat option \<times> world" where
  "sys_statfs p = with_fault (SYS_statfs p) (\<lambda>e. None) (\<lambda>w. (map_of (fstypes w) p, w))"

definition sys_mkdir :: "string \<Rightarrow> world \<Rightarrow> int \<times> world" where
  "sys_mkdir p = with_fault (SYS_mkdir p) (\<lambda>e. e) (fs_create p I_DIR)"

definition sys_open_dir :: "string \<Rightarrow> world \<Rightarrow> int \<times> world" where
  "sys_open_dir p =
     with_fault (SYS_open p) (\<lambda>e. e)
       (\<lambda>w. case map_of (fs w) p of
              None \<Rightarrow> (- ENOENT, w)
            | Some I_DIR \<Rightarrow> fd_install (FD_DIR p) w
            | Some (I_PIN d) \<Rightarrow> (- ENOTDIR, w))"

definition sys_flock :: "int \<Rightarrow> world \<Rightarrow> int \<times> world" where
  "sys_flock fd =
     with_fault (SYS_flock fd) (\<lambda>e. e)
       (\<lambda>w. if map_of (fds w) fd = None then (- EBADF, w) else (0, w))"

definition sys_unlink :: "string \<Rightarrow> world \<Rightarrow> int \<times> world" where
  "sys_unlink p =
     with_fault (SYS_unlink p) (\<lambda>e. e)
       (\<lambda>w. case map_of (fs w) p of
              None \<Rightarrow> (- ENOENT, w)
            | Some I_DIR \<Rightarrow> (- EISDIR, w)
            | Some (I_PIN d) \<Rightarrow> (0, fs_remove p w))"

definition sys_rmdir :: "string \<Rightarrow> world \<Rightarrow> int \<times> world" where
  "sys_rmdir p =
     with_fault (SYS_rmdir p) (\<lambda>e. e)
       (\<lambda>w. case map_of (fs w) p of
              None \<Rightarrow> (- ENOENT, w)
            | Some (I_PIN d) \<Rightarrow> (- ENOTDIR, w)
            | Some I_DIR \<Rightarrow>
                if dir_entries (fs w) p \<noteq> [] then (- ENOTEMPTY, w) else (0, fs_remove p w))"

text \<open>
  \<open>opendir\<close> gives the stream of entries \<open>readdir\<close> will return: \<open>.\<close>, \<open>..\<close> and the
  entries the directory has when it is opened, the newest first, as the kernel's bpffs
  lists them; \<open>None\<close> is the NULL stream.
\<close>

definition opendir :: "string \<Rightarrow> world \<Rightarrow> string list option \<times> world" where
  "opendir p =
     with_fault (SYS_opendir p) (\<lambda>e. None)
       (\<lambda>w. case map_of (fs w) p of
              Some I_DIR \<Rightarrow> (Some (''.'' # ''..'' # rev (dir_entries (fs w) p)), w)
            | _ \<Rightarrow> (None, w))"

subsubsection \<open>Kernel objects\<close>

definition bpf_prog_get_fd_by_id :: "nat \<Rightarrow> world \<Rightarrow> int \<times> world" where
  "bpf_prog_get_fd_by_id id' =
     with_fault (SYS_bpf_prog_get_fd_by_id id') (\<lambda>e. e)
       (\<lambda>w. if map_of (kprogs w) id' = None then (- ENOENT, w) else fd_install (FD_PROG id') w)"

definition bpf_obj_get_info_by_fd :: "int \<Rightarrow> world \<Rightarrow> (int + bpf_prog_info) \<times> world" where
  "bpf_obj_get_info_by_fd fd =
     with_fault (SYS_bpf_obj_get_info_by_fd fd) Inl
       (\<lambda>w. case map_of (fds w) fd of
              Some (FD_PROG i) \<Rightarrow>
                (case map_of (kprogs w) i of None \<Rightarrow> (Inl (- EINVAL), w) | Some info \<Rightarrow> (Inr info, w))
            | Some d \<Rightarrow> (Inl (- EINVAL), w)
            | None \<Rightarrow> (Inl (- EBADF), w))"

text \<open>
  \<open>btf__get_from_id\<close>: a fresh \<open>struct btf\<close> with the kernel's data; libbpf returns 0 with
  a NULL result when the kernel has no type information of this id.
\<close>

definition btf__get_from_id :: "nat \<Rightarrow> world \<Rightarrow> (int \<times> btf option) \<times> world" where
  "btf__get_from_id id' =
     with_fault (SYS_btf_get_from_id id') (\<lambda>e. (e, None))
       (\<lambda>w. case map_of (kbtfs w) id' of
              None \<Rightarrow> ((0, None), w)
            | Some b \<Rightarrow> ((0, Some (b\<lparr>btf_addr := fresh_addr w\<rparr>)),
                         w\<lparr>heap := A_BTF (fresh_addr w) # heap w\<rparr>))"

definition btf__free :: "btf option \<Rightarrow> world \<Rightarrow> world option" where
  "btf__free p w =
     (case p of
        None \<Rightarrow> Some w
      | Some b \<Rightarrow>
          if A_BTF (btf_addr b) \<in> set (heap w)
          then Some ((log_sys (SYS_btf_free (btf_addr b)) w)\<lparr>heap := remove1 (A_BTF (btf_addr b)) (heap w)\<rparr>)
          else None)"

definition bpf_obj_pin :: "int \<Rightarrow> string \<Rightarrow> world \<Rightarrow> int \<times> world" where
  "bpf_obj_pin fd p =
     with_fault (SYS_bpf_obj_pin fd p) (\<lambda>e. e)
       (\<lambda>w. case map_of (fds w) fd of
              None \<Rightarrow> (- EBADF, w)
            | Some (FD_DIR d) \<Rightarrow> (- EINVAL, w)
            | Some d \<Rightarrow> fs_create p (I_PIN d) w)"

definition bpf_raw_tracepoint_open :: "int \<Rightarrow> world \<Rightarrow> int \<times> world" where
  "bpf_raw_tracepoint_open prog_fd' =
     with_fault (SYS_bpf_raw_tracepoint_open prog_fd') (\<lambda>e. e)
       (\<lambda>w. case map_of (fds w) prog_fd' of
              Some (FD_PROG i) \<Rightarrow> fd_install (FD_LINK i) w
            | Some d \<Rightarrow> (- EINVAL, w)
            | None \<Rightarrow> (- EBADF, w))"

subsubsection \<open>libbpf objects\<close>

text \<open>
  A \<open>bpf_program\<close> pointer into the object at \<open>addr\<close>; \<open>obj_prog_of\<close> follows it. A call
  on an object or a program that is not live (it was closed, or never opened) has no
  defined result: \<open>None\<close>.
\<close>

definition prog_ptr :: "nat \<Rightarrow> nat \<Rightarrow> obj_prog \<Rightarrow> bpf_program" where
  "prog_ptr addr i op =
     \<lparr>bp_obj = addr, bp_idx = i, bp_name = op_name op, bp_title = op_title op, bp_size = op_size op\<rparr>"

definition obj_prog_of :: "world \<Rightarrow> bpf_program \<Rightarrow> obj_prog option" where
  "obj_prog_of w bp =
     (case map_of (objs w) (bp_obj bp) of
        None \<Rightarrow> None
      | Some obj \<Rightarrow> if bp_idx bp < length (o_progs obj) then Some (o_progs obj ! bp_idx bp) else None)"

definition set_obj :: "nat \<Rightarrow> bpf_object \<Rightarrow> world \<Rightarrow> world" where
  "set_obj addr obj w = w\<lparr>objs := map (\<lambda>e. if fst e = addr then (addr, obj) else e) (objs w)\<rparr>"

definition set_obj_prog :: "bpf_program \<Rightarrow> obj_prog \<Rightarrow> world \<Rightarrow> world" where
  "set_obj_prog bp op w =
     (case map_of (objs w) (bp_obj bp) of
        None \<Rightarrow> w
      | Some obj \<Rightarrow> set_obj (bp_obj bp) (obj\<lparr>o_progs := (o_progs obj)[bp_idx bp := op]\<rparr>) w)"

text \<open>\<open>bpf_object__open_file\<close> followed by \<open>libbpf_get_error\<close>: the error, or the new object.\<close>

definition bpf_object__open_file :: "string \<Rightarrow> world \<Rightarrow> (int + nat) \<times> world" where
  "bpf_object__open_file filename =
     with_fault (SYS_bpf_object_open filename) Inl
       (\<lambda>w. case map_of (files w) filename of
              None \<Rightarrow> (Inl (- ENOENT), w)
            | Some obj \<Rightarrow> (Inr (fresh_addr w), w\<lparr>objs := (fresh_addr w, obj) # objs w\<rparr>))"

text \<open>\<open>bpf_object__close\<close> closes the descriptors of the object's programs and frees the object.\<close>

fun close_fds :: "int list \<Rightarrow> world \<Rightarrow> world" where
  "close_fds [] w = w"
| "close_fds (fd # fds') w = close_fds fds' (snd (sys_close fd w))"

definition bpf_object__close :: "nat \<Rightarrow> world \<Rightarrow> world option" where
  "bpf_object__close addr w =
     (case map_of (objs w) addr of
        None \<Rightarrow> None
      | Some obj \<Rightarrow>
          Some ((close_fds (filter (\<lambda>fd. fd \<ge> 0) (map op_fd (o_progs obj))) (log_sys (SYS_bpf_object_close addr) w))
                  \<lparr>objs := filter (\<lambda>e. fst e \<noteq> addr) (objs w)\<rparr>))"

definition bpf_object__find_program_by_title :: "world \<Rightarrow> nat \<Rightarrow> string \<Rightarrow> bpf_program option option" where
  "bpf_object__find_program_by_title w addr title =
     (case map_of (objs w) addr of
        None \<Rightarrow> None
      | Some obj \<Rightarrow>
          Some (case filter (\<lambda>i. strcmp (op_title (o_progs obj ! i)) title = 0) [0 ..< length (o_progs obj)] of
                  [] \<Rightarrow> None
                | i # _ \<Rightarrow> Some (prog_ptr addr i (o_progs obj ! i))))"

text \<open>\<open>bpf_program__next(NULL, obj)\<close>: the first program of the object.\<close>

definition bpf_program__first :: "world \<Rightarrow> nat \<Rightarrow> bpf_program option option" where
  "bpf_program__first w addr =
     (case map_of (objs w) addr of
        None \<Rightarrow> None
      | Some obj \<Rightarrow>
          Some (case o_progs obj of [] \<Rightarrow> None | op # _ \<Rightarrow> Some (prog_ptr addr 0 op)))"

definition bpf_object__btf :: "world \<Rightarrow> nat \<Rightarrow> btf option option" where
  "bpf_object__btf w addr = map_option o_btf (map_of (objs w) addr)"

definition bpf_program__fd :: "world \<Rightarrow> bpf_program option \<Rightarrow> int option" where
  "bpf_program__fd w p =
     (case p of
        None \<Rightarrow> Some (- EINVAL)
      | Some bp \<Rightarrow> map_option (\<lambda>op. if op_fd op < 0 then - EINVAL else op_fd op) (obj_prog_of w bp))"

text \<open>
  \<open>bpf_object__load\<close>: the kernel takes the object's type information and each of its
  programs, under fresh ids, and hands out a descriptor for each program. An object is
  loaded once.
\<close>

definition fresh_id :: "(nat \<times> 'a) list \<Rightarrow> nat" where
  "fresh_id t = Suc (fold max (map fst t) 0)"

definition load_prog :: "nat \<Rightarrow> obj_prog \<Rightarrow> world \<Rightarrow> obj_prog \<times> world" where
  "load_prog btf_id op w =
     (case fd_install (FD_PROG (fresh_id (kprogs w)))
             (w\<lparr>kprogs := (fresh_id (kprogs w),
                   \<lparr>info_id = fresh_id (kprogs w), info_name = take 15 (op_name op),
                    info_tag = op_tag op, info_load_time = ktime w, info_btf_id = btf_id\<rparr>) # kprogs w,
                ktime := ktime w + 1\<rparr>) of
        (fd, w') \<Rightarrow> (op\<lparr>op_fd := fd\<rparr>, w'))"

fun load_progs :: "nat \<Rightarrow> obj_prog list \<Rightarrow> world \<Rightarrow> obj_prog list \<times> world" where
  "load_progs btf_id [] w = ([], w)"
| "load_progs btf_id (op # ops) w =
     (case load_prog btf_id op w of
        (op', w') \<Rightarrow> (case load_progs btf_id ops w' of (ops', w'') \<Rightarrow> (op' # ops', w'')))"

definition bpf_object__load :: "nat \<Rightarrow> world \<Rightarrow> (int \<times> world) option" where
  "bpf_object__load addr w =
     (case map_of (objs w) addr of
        None \<Rightarrow> None
      | Some obj \<Rightarrow>
          Some (with_fault (SYS_bpf_object_load addr) (\<lambda>e. e)
            (\<lambda>w. if o_loaded obj then (- EINVAL, w)
                 else (case o_btf obj of
                         None \<Rightarrow>
                           (case load_progs 0 (o_progs obj) w of
                              (ops, w') \<Rightarrow> (0, set_obj addr (obj\<lparr>o_progs := ops, o_loaded := True\<rparr>) w'))
                       | Some b \<Rightarrow>
                           (case load_progs (fresh_id (kbtfs w)) (o_progs obj)
                                   (w\<lparr>kbtfs := (fresh_id (kbtfs w), b) # kbtfs w\<rparr>) of
                              (ops, w') \<Rightarrow> (0, set_obj addr (obj\<lparr>o_progs := ops, o_loaded := True\<rparr>) w'))))
            w))"

definition bpf_program__set_attach_target :: "bpf_program option \<Rightarrow> int \<Rightarrow> string \<Rightarrow> world \<Rightarrow> (int \<times> world) option" where
  "bpf_program__set_attach_target p attach_prog_fd attach_func_name w =
     (case p of
        None \<Rightarrow> Some (- EINVAL, w)
      | Some bp \<Rightarrow>
          if attach_prog_fd < 0 then Some (- EINVAL, w)
          else (case obj_prog_of w bp of
                  None \<Rightarrow> None
                | Some op \<Rightarrow>
                    (case next_fault w of
                       (e, w') \<Rightarrow>
                         if e \<noteq> 0 then Some (- \<bar>e\<bar>, w')
                         else Some (0, set_obj_prog bp (op\<lparr>op_attach := Some (attach_prog_fd, attach_func_name)\<rparr>) w'))))"

definition bpf_program__set_type :: "bpf_program option \<Rightarrow> bpf_prog_type \<Rightarrow> world \<Rightarrow> world option" where
  "bpf_program__set_type p ty w =
     (case p of
        None \<Rightarrow> None
      | Some bp \<Rightarrow>
          (case obj_prog_of w bp of
             None \<Rightarrow> None
           | Some op \<Rightarrow> Some (set_obj_prog bp (op\<lparr>op_type := ty\<rparr>) w)))"

subsubsection \<open>The interface attach primitive\<close>

definition XDP_FLAGS_UPDATE_IF_NOEXIST :: "32 word" where "XDP_FLAGS_UPDATE_IF_NOEXIST = 1"
definition XDP_FLAGS_SKB_MODE :: "32 word" where "XDP_FLAGS_SKB_MODE = 2"
definition XDP_FLAGS_DRV_MODE :: "32 word" where "XDP_FLAGS_DRV_MODE = 4"
definition XDP_FLAGS_HW_MODE :: "32 word" where "XDP_FLAGS_HW_MODE = 8"

definition XDP_FLAGS_MODES :: "32 word" where
  "XDP_FLAGS_MODES = XDP_FLAGS_SKB_MODE OR XDP_FLAGS_DRV_MODE OR XDP_FLAGS_HW_MODE"

text \<open>
  \<open>bpf_set_link_xdp_fd\<close>, the kernel's rule as the library relies on it: an interface
  holds one program in one mode; a program offered in another mode is refused with
  \<open>EEXIST\<close>, one offered with the only-if-unset flag while a program is attached with
  \<open>EBUSY\<close>; the descriptor \<open>-1\<close> detaches the program of the mode the flags name.
\<close>

definition bpf_set_link_xdp_fd :: "int \<Rightarrow> int \<Rightarrow> 32 word \<Rightarrow> world \<Rightarrow> int \<times> world" where
  "bpf_set_link_xdp_fd ifindex fd flags =
     with_fault (SYS_bpf_set_link_xdp_fd ifindex fd flags) (\<lambda>e. e)
       (\<lambda>w. let req = (if flags AND XDP_FLAGS_MODES = 0 then XDP_FLAGS_DRV_MODE
                        else flags AND XDP_FLAGS_MODES);
                 others = filter (\<lambda>e. fst e \<noteq> ifindex) (xdp_attached w)
             in if fd < 0 then
                  (case map_of (xdp_attached w) ifindex of
                     None \<Rightarrow> (0, w)
                   | Some (m, i) \<Rightarrow> if m = req then (0, w\<lparr>xdp_attached := others\<rparr>) else (0, w))
                else
                  (case map_of (fds w) fd of
                     None \<Rightarrow> (- EBADF, w)
                   | Some (FD_PROG i) \<Rightarrow>
                       (case map_of (xdp_attached w) ifindex of
                          None \<Rightarrow> (0, w\<lparr>xdp_attached := (ifindex, req, i) # others\<rparr>)
                        | Some (m, j) \<Rightarrow>
                            if m \<noteq> req then (- EEXIST, w)
                            else if flags AND XDP_FLAGS_UPDATE_IF_NOEXIST \<noteq> 0 then (- EBUSY, w)
                            else (0, w\<lparr>xdp_attached := (ifindex, req, i) # others\<rparr>))
                   | Some d \<Rightarrow> (- EINVAL, w)))"

subsection \<open>Constants of headers that are not among the sources\<close>

text \<open>
  Modelled from the spec: \<^verbatim>\<open>xdp/libxdp.h\<close>, \<^verbatim>\<open>xdp/prog_dispatcher.h\<close> and \<^verbatim>\<open>util.h\<close> are
  not among the sources. The specification leaves the default priority and the default
  chain-call mask open ("implementation-chosen constant", "a constant mask of continue
  actions"), names the environment variable and the dispatcher file, and gives the
  dispatcher's constant struct as a count followed by one bitmap per slot, at least 10
  slots. No property below depends on the values chosen here.
\<close>

definition XDP_DEFAULT_RUN_PRIO :: "32 word" where "XDP_DEFAULT_RUN_PRIO = 50"

definition XDP_DEFAULT_CHAIN_CALL_ACTIONS :: "32 word" where
  "XDP_DEFAULT_CHAIN_CALL_ACTIONS = push_bit XDP_PASS 1"

definition BPF_DIR_MNT :: string where "BPF_DIR_MNT = ''/sys/fs/bpf''"
definition BPF_FS_MAGIC :: nat where "BPF_FS_MAGIC = 0xcafe4a11"
definition PATH_MAX :: nat where "PATH_MAX = 4096"
definition MAX_DISPATCHER_ACTIONS :: nat where "MAX_DISPATCHER_ACTIONS = 10"

definition sizeof_xdp_dispatcher_config :: nat where
  "sizeof_xdp_dispatcher_config = 4 + 4 * MAX_DISPATCHER_ACTIONS"

text \<open>
  Modelled from the spec: \<^verbatim>\<open>find_bpf_file\<close> (\<^verbatim>\<open>util.h\<close>) locates an object file of the
  library "by an implementation-defined search path": the first of the directories
  \<open>bpf_file_dirs\<close> that holds a file of this name.
\<close>

definition find_bpf_file :: "nat \<Rightarrow> string \<Rightarrow> world \<Rightarrow> int + string" where
  "find_bpf_file buf_len name w =
     (case filter (\<lambda>p. map_of (files w) p \<noteq> None) (map (\<lambda>d. d @ ''/'' @ name) (bpf_file_dirs w)) of
        [] \<Rightarrow> Inl (- ENOENT)
      | p # _ \<Rightarrow> if check_snprintf buf_len p \<noteq> 0 then Inl (check_snprintf buf_len p) else Inr p)"

text \<open>\<^verbatim>\<open>%d\<close>: a signed decimal number.\<close>

function dec :: "nat \<Rightarrow> string" where
  "dec n = (if n < 10 then [''0123456789'' ! n] else dec (n div 10) @ [''0123456789'' ! (n mod 10)])"
  by pat_completeness auto
termination
  by (relation "measure id") auto

definition fmt_d :: "int \<Rightarrow> string" where
  "fmt_d i = (if i < 0 then ''-'' @ dec (nat (- i)) else dec (nat i))"

text \<open>A \<^verbatim>\<open>__u32\<close> passed to \<^verbatim>\<open>%d\<close> is read as an \<^verbatim>\<open>int\<close>.\<close>

definition as_int :: "nat \<Rightarrow> int" where
  "as_int n = (if n mod 2 ^ 32 < 2 ^ 31 then int (n mod 2 ^ 32) else int (n mod 2 ^ 32) - 2 ^ 32)"

subsection \<open>Mount resolver and lock\<close>

definition bpf_is_valid_mntpt :: "string \<Rightarrow> nat \<Rightarrow> world \<Rightarrow> bool \<times> world" where
  "bpf_is_valid_mntpt mnt magic w =
     (case sys_statfs mnt w of
        (None, w') \<Rightarrow> (False, w')
      | (Some ty, w') \<Rightarrow> (if ty \<noteq> magic then (False, w') else (True, w')))"

definition bpf_find_mntpt_single :: "nat \<Rightarrow> nat \<Rightarrow> string \<Rightarrow> world \<Rightarrow> string option \<times> world" where
  "bpf_find_mntpt_single magic len mntpt w =
     (case bpf_is_valid_mntpt mntpt magic w of
        (True, w') \<Rightarrow> (Some (take (len - 1) mntpt), w')
      | (False, w') \<Rightarrow> (None, w'))"

definition find_bpffs :: "world \<Rightarrow> string option \<times> world" where
  "find_bpffs w =
     (case bpf_mnt_cache w of
        Some m \<Rightarrow> (Some m, w)
      | None \<Rightarrow>
          (case bpf_find_mntpt_single BPF_FS_MAGIC PATH_MAX
                  (case env_bpffs w of Some envdir \<Rightarrow> envdir | None \<Rightarrow> BPF_DIR_MNT) w of
             (None, w') \<Rightarrow> (None, w')
           | (Some m, w') \<Rightarrow> (Some m, w'\<lparr>bpf_mnt_cache := Some m\<rparr>)))"

definition get_bpffs_dir :: "world \<Rightarrow> (int + string) \<times> world" where
  "get_bpffs_dir w =
     (case bpffs_dir_cache w of
        Some d \<Rightarrow> (Inr d, w)
      | None \<Rightarrow>
          (case find_bpffs w of
             (None, w1) \<Rightarrow> (Inl (- ENOENT), w1)
           | (Some parent, w1) \<Rightarrow>
               if check_snprintf PATH_MAX (parent @ ''/xdp'') \<noteq> 0
               then (Inl (check_snprintf PATH_MAX (parent @ ''/xdp'')), w1)
               else (case sys_mkdir (parent @ ''/xdp'') w1 of
                       (e, w2) \<Rightarrow>
                         if e \<noteq> 0 \<and> e \<noteq> - EEXIST then (Inl e, w2)
                         else (Inr (parent @ ''/xdp''),
                               w2\<lparr>bpffs_dir_cache := Some (parent @ ''/xdp'')\<rparr>))))"

definition xdp_lock_acquire :: "world \<Rightarrow> int \<times> world" where
  "xdp_lock_acquire w =
     (case get_bpffs_dir w of
        (Inl e, w1) \<Rightarrow> (e, w1)
      | (Inr d, w1) \<Rightarrow>
          (case sys_open_dir d w1 of
             (lock_fd, w2) \<Rightarrow>
               if lock_fd < 0 then (lock_fd, w2)
               else (case sys_flock lock_fd w2 of
                       (e, w3) \<Rightarrow>
                         if e \<noteq> 0 then (e, snd (sys_close lock_fd w3))
                         else (lock_fd, w3))))"

definition xdp_lock_release :: "int \<Rightarrow> world \<Rightarrow> int \<times> world" where
  "xdp_lock_release lock_fd w =
     (case sys_flock lock_fd w of
        (e, w1) \<Rightarrow> (e, snd (sys_close lock_fd w1)))"

subsection \<open>Handle lifecycle and factories\<close>

definition xdp_program__new :: "world \<Rightarrow> (int + xdp_program) \<times> world" where
  "xdp_program__new w =
     (case malloc A_HANDLE w of
        (False, w') \<Rightarrow> (Inl (- ENOMEM), w')
      | (True, w') \<Rightarrow>
          (Inr \<lparr>bpf_prog = None, bpf_obj = None, btf = None, prog_fd = - 1, link_fd = - 1,
                 link_pin_path = None, prog_name = None, prog_tag = replicate BPF_TAG_SIZE 0,
                 load_time = 0, from_external_obj = False, run_prio = XDP_DEFAULT_RUN_PRIO,
                 chain_call_actions = XDP_DEFAULT_CHAIN_CALL_ACTIONS\<rparr>, w'))"

definition xdp_program__free :: "xdp_program \<Rightarrow> world \<Rightarrow> world option" where
  "xdp_program__free xdp_prog w =
     (let w1 = (if link_fd xdp_prog \<ge> 0 then snd (sys_close (link_fd xdp_prog) w) else w);
          w2 = (if prog_fd xdp_prog \<ge> 0 then snd (sys_close (prog_fd xdp_prog) w1) else w1)
      in case free_str (link_pin_path xdp_prog) w2 of
           None \<Rightarrow> None
         | Some w3 \<Rightarrow>
             (case free_str (prog_name xdp_prog) w3 of
                None \<Rightarrow> None
              | Some w4 \<Rightarrow>
                  if \<not> from_external_obj xdp_prog then
                    (case bpf_obj xdp_prog of
                       Some obj \<Rightarrow> bpf_object__close obj w4
                     | None \<Rightarrow>
                         (case btf xdp_prog of
                            Some b \<Rightarrow> btf__free (Some b) w4
                          | None \<Rightarrow> Some w4))
                  else Some w4))"

text \<open>
  \<open>xdp_program__fill_from_obj\<close>; the handle is returned as the C code leaves it, also
  when the result is an error.
\<close>

definition xdp_program__fill_from_obj ::
    "xdp_program \<Rightarrow> nat \<Rightarrow> string option \<Rightarrow> bool \<Rightarrow> world \<Rightarrow> (int \<times> xdp_program \<times> world) option" where
  "xdp_program__fill_from_obj xdp_prog obj prog_name' external w =
     (case (case prog_name' of
              Some n \<Rightarrow> bpf_object__find_program_by_title w obj n
            | None \<Rightarrow> bpf_program__first w obj) of
        None \<Rightarrow> None
      | Some None \<Rightarrow> Some (- ENOENT, xdp_prog, w)
      | Some (Some bp) \<Rightarrow>
          (case strdup (bpf_program__name bp) w of
             (None, w1) \<Rightarrow> Some (- ENOMEM, xdp_prog\<lparr>prog_name := None\<rparr>, w1)
           | (Some s, w1) \<Rightarrow>
               (case bpf_object__btf w1 obj of
                  None \<Rightarrow> None
                | Some b \<Rightarrow>
                    (case xdp_parse_run_config
                            (xdp_prog\<lparr>prog_name := Some s, bpf_prog := Some bp, bpf_obj := Some obj,
                                      btf := b, from_external_obj := external\<rparr>) of
                       None \<Rightarrow> None
                     | Some (err, p') \<Rightarrow>
                         if err \<noteq> 0 \<and> err \<noteq> - ENOENT then Some (err, p', w1)
                         else Some (0, p', w1)))))"

definition xdp_program__from_bpf_obj :: "nat \<Rightarrow> string option \<Rightarrow> world \<Rightarrow> ((int + xdp_program) \<times> world) option" where
  "xdp_program__from_bpf_obj obj prog_name' w =
     (case xdp_program__new w of
        (Inl e, w1) \<Rightarrow> Some (Inl e, w1)
      | (Inr xdp_prog, w1) \<Rightarrow>
          (case xdp_program__fill_from_obj xdp_prog obj prog_name' True w1 of
             None \<Rightarrow> None
           | Some (err, p', w2) \<Rightarrow>
               if err \<noteq> 0 then
                 (case xdp_program__free p' w2 of
                    None \<Rightarrow> None
                  | Some w3 \<Rightarrow> Some (Inl err, w3))
               else Some (Inr p', w2)))"

definition xdp_program__open_file :: "string \<Rightarrow> string option \<Rightarrow> world \<Rightarrow> ((int + xdp_program) \<times> world) option" where
  "xdp_program__open_file filename prog_name' w =
     (case bpf_object__open_file filename w of
        (Inl err, w1) \<Rightarrow> Some (Inl err, w1)
      | (Inr obj, w1) \<Rightarrow>
          (case xdp_program__new w1 of
             (Inl e, w2) \<Rightarrow>
               (case bpf_object__close obj w2 of
                  None \<Rightarrow> None
                | Some w3 \<Rightarrow> Some (Inl e, w3))
           | (Inr xdp_prog, w2) \<Rightarrow>
               (case xdp_program__fill_from_obj xdp_prog obj prog_name' False w2 of
                  None \<Rightarrow> None
                | Some (err, p', w3) \<Rightarrow>
                    if err \<noteq> 0 then
                      (case xdp_program__free p' w3 of
                         None \<Rightarrow> None
                       | Some w4 \<Rightarrow>
                           (case bpf_object__close obj w4 of
                              None \<Rightarrow> None
                            | Some w5 \<Rightarrow> Some (Inl err, w5)))
                    else Some (Inr p', w3))))"

definition xdp_program__fill_from_fd :: "xdp_program \<Rightarrow> int \<Rightarrow> world \<Rightarrow> (int \<times> xdp_program \<times> world) option" where
  "xdp_program__fill_from_fd xdp_prog fd w =
     (case bpf_obj_get_info_by_fd fd w of
        (Inl e, w1) \<Rightarrow> map_option (\<lambda>w'. (e, xdp_prog, w')) (btf__free None w1)
      | (Inr info, w1) \<Rightarrow>
          (case (if prog_name xdp_prog = None then strdup (info_name info) w1
                 else (prog_name xdp_prog, w1)) of
             (None, w2) \<Rightarrow>
               map_option (\<lambda>w'. (- ENOMEM, xdp_prog\<lparr>prog_name := None\<rparr>, w')) (btf__free None w2)
           | (Some s, w2) \<Rightarrow>
               (case (if info_btf_id info \<noteq> 0 \<and> btf xdp_prog = None
                      then btf__get_from_id (info_btf_id info) w2
                      else ((0, btf xdp_prog), w2)) of
                  ((err, b), w3) \<Rightarrow>
                    if err \<noteq> 0
                    then map_option (\<lambda>w'. (err, xdp_prog\<lparr>prog_name := Some s\<rparr>, w')) (btf__free b w3)
                    else Some (0, xdp_prog\<lparr>prog_name := Some s, btf := b,
                                   prog_tag := take BPF_TAG_SIZE (info_tag info),
                                   load_time := info_load_time info, prog_fd := fd\<rparr>, w3))))"

text \<open>At the label \<open>err\<close>, \<open>xdp_program__from_id\<close> calls \<open>free\<close>, not \<open>xdp_program__free\<close>.\<close>

definition xdp_program__from_id :: "nat \<Rightarrow> world \<Rightarrow> ((int + xdp_program) \<times> world) option" where
  "xdp_program__from_id id' w =
     (case bpf_prog_get_fd_by_id id' w of
        (fd, w1) \<Rightarrow>
          if fd < 0 then Some (Inl fd, w1)
          else (case xdp_program__new w1 of
                  (Inl e, w2) \<Rightarrow> Some (Inl e, w2)
                | (Inr xdp_prog, w2) \<Rightarrow>
                    (case xdp_program__fill_from_fd xdp_prog fd w2 of
                       None \<Rightarrow> None
                     | Some (err, p1, w3) \<Rightarrow>
                         if err \<noteq> 0 then map_option (Pair (Inl err)) (free A_HANDLE w3)
                         else (case xdp_parse_run_config p1 of
                                 None \<Rightarrow> None
                               | Some (err', p2) \<Rightarrow>
                                   if err' \<noteq> 0 \<and> err' \<noteq> - ENOENT
                                   then map_option (Pair (Inl err')) (free A_HANDLE w3)
                                   else Some (Inr p2, w3)))))"

definition xdp_program__load :: "xdp_program \<Rightarrow> world \<Rightarrow> (int \<times> xdp_program \<times> world) option" where
  "xdp_program__load prog w =
     (if prog_fd prog \<ge> 0 then Some (- EEXIST, prog, w)
      else (case bpf_obj prog of
              None \<Rightarrow> Some (- EINVAL, prog, w)
            | Some obj \<Rightarrow>
                (case bpf_object__load obj w of
                   None \<Rightarrow> None
                 | Some (err, w1) \<Rightarrow>
                     if err \<noteq> 0 then Some (err, prog, w1)
                     else (case bpf_program__fd w1 (bpf_prog prog) of
                             None \<Rightarrow> None
                           | Some fd \<Rightarrow> xdp_program__fill_from_fd prog fd w1))))"

subsection \<open>Pin store\<close>

text \<open>
  The unwind of \<open>pin_multiprog\<close> (label \<open>err_unpin\<close>) over the handles of index 0 to
  \<open>i\<close>: the recursion reaches the last one first, as the C loop counts down. It unlinks
  the path stored in the handle.
\<close>

fun err_unpin :: "xdp_program list \<Rightarrow> world \<Rightarrow> (xdp_program list \<times> world) option" where
  "err_unpin [] w = Some ([], w)"
| "err_unpin (prog # progs) w =
     (case err_unpin progs w of
        None \<Rightarrow> None
      | Some (progs', w1) \<Rightarrow>
          (case link_pin_path prog of
             None \<Rightarrow> Some (prog # progs', w1)
           | Some path \<Rightarrow>
               (case free_str (Some path) (snd (sys_unlink path w1)) of
                  None \<Rightarrow> None
                | Some w2 \<Rightarrow> Some (prog\<lparr>link_pin_path := None\<rparr> # progs', w2))))"

text \<open>
  The loop of \<open>pin_multiprog\<close>: \<open>before\<close> holds the handles of lower index, pinned in this
  call; the result is the value of \<open>err\<close> with the handles and the state at label \<open>out\<close>.
\<close>

fun pin_progs :: "string \<Rightarrow> xdp_program list \<Rightarrow> xdp_program list \<Rightarrow> int \<Rightarrow> world
    \<Rightarrow> (int \<times> xdp_program list \<times> world) option" where
  "pin_progs pin_path before [] err w = Some (err, before, w)"
| "pin_progs pin_path before (prog # rest) err w =
     (if link_fd prog < 0 then
        map_option (\<lambda>(ps, w'). (- EINVAL, ps @ rest, w')) (err_unpin (before @ [prog]) w)
      else if check_snprintf PATH_MAX (pin_path @ ''/link-prog'' @ fmt_d (int (length before))) \<noteq> 0 then
        map_option
          (\<lambda>(ps, w'). (check_snprintf PATH_MAX (pin_path @ ''/link-prog'' @ fmt_d (int (length before))),
                        ps @ rest, w'))
          (err_unpin (before @ [prog]) w)
      else
        (case bpf_obj_pin (link_fd prog) (pin_path @ ''/link-prog'' @ fmt_d (int (length before))) w of
           (e, w1) \<Rightarrow>
             if rv e \<noteq> 0 then
               map_option (\<lambda>(ps, w'). (rv e, ps @ rest, w')) (err_unpin (before @ [prog]) w1)
             else
               (case strdup pin_path w1 of
                  (None, w2) \<Rightarrow>
                    map_option (\<lambda>(ps, w'). (- ENOMEM, ps @ rest, w'))
                      (err_unpin (before @ [prog\<lparr>link_pin_path := None\<rparr>]) (snd (sys_unlink pin_path w2)))
                | (Some s, w2) \<Rightarrow>
                    pin_progs pin_path (before @ [prog\<lparr>link_pin_path := Some s\<rparr>]) rest 0 w2)))"

definition pin_multiprog :: "int \<Rightarrow> xdp_program list \<Rightarrow> world \<Rightarrow> (int \<times> xdp_program list \<times> world) option" where
  "pin_multiprog dispatcher_fd progs w =
     (case get_bpffs_dir w of
        (Inl e, w1) \<Rightarrow> Some (e, progs, w1)
      | (Inr bpffs_dir, w1) \<Rightarrow>
          (case bpf_obj_get_info_by_fd dispatcher_fd w1 of
             (Inl e, w2) \<Rightarrow> Some (rv e, progs, w2)
           | (Inr info, w2) \<Rightarrow>
               (case xdp_lock_acquire w2 of
                  (lock_fd, w3) \<Rightarrow>
                    if lock_fd < 0 then Some (lock_fd, progs, w3)
                    else if check_snprintf PATH_MAX (bpffs_dir @ ''/dispatch-'' @ fmt_d (as_int (info_id info))) \<noteq> 0
                    then Some (check_snprintf PATH_MAX (bpffs_dir @ ''/dispatch-'' @ fmt_d (as_int (info_id info))),
                               progs, snd (xdp_lock_release lock_fd w3))
                    else
                      (case sys_mkdir (bpffs_dir @ ''/dispatch-'' @ fmt_d (as_int (info_id info))) w3 of
                         (e, w4) \<Rightarrow>
                           if e \<noteq> 0 \<and> e \<noteq> - EEXIST
                           then Some (e, progs, snd (xdp_lock_release lock_fd w4))
                           else
                             (case pin_progs (bpffs_dir @ ''/dispatch-'' @ fmt_d (as_int (info_id info)))
                                     [] progs (rv e) w4 of
                                None \<Rightarrow> None
                              | Some (err, progs', w5) \<Rightarrow>
                                  Some (err, progs', snd (xdp_lock_release lock_fd w5)))))))"

text \<open>
  The loop of \<open>unpin_multiprog\<close> over the entries \<open>readdir\<close> returns: 0 when every entry
  is unlinked, or the first error, the entries after it untouched.
\<close>

fun unlink_entries :: "string \<Rightarrow> string list \<Rightarrow> world \<Rightarrow> int \<times> world" where
  "unlink_entries pin_path [] w = (0, w)"
| "unlink_entries pin_path (d_name # des) w =
     (if strcmp ''.'' d_name = 0 \<or> strcmp ''..'' d_name = 0 then unlink_entries pin_path des w
      else if check_snprintf PATH_MAX (pin_path @ ''/'' @ d_name) \<noteq> 0
        then (check_snprintf PATH_MAX (pin_path @ ''/'' @ d_name), w)
      else (case sys_unlink (pin_path @ ''/'' @ d_name) w of
              (e, w1) \<Rightarrow> if e \<noteq> 0 then (e, w1) else unlink_entries pin_path des w1))"


subsection \<open>Dispatcher composer\<close>

text \<open>The second loop of \<open>gen_xdp_multiprog\<close>; \<open>before\<close> holds the handles of lower index.\<close>

fun attach_progs :: "int \<Rightarrow> xdp_program list \<Rightarrow> xdp_program list \<Rightarrow> world
    \<Rightarrow> (int \<times> xdp_program list \<times> world) option" where
  "attach_progs prog_fd' before [] w = Some (0, before, w)"
| "attach_progs prog_fd' before (prog # rest) w =
     (if check_snprintf PATH_MAX (''prog'' @ fmt_d (int (length before))) \<noteq> 0
      then Some (check_snprintf PATH_MAX (''prog'' @ fmt_d (int (length before))), before @ prog # rest, w)
      else
        (case bpf_program__set_attach_target (bpf_prog prog) prog_fd' (''prog'' @ fmt_d (int (length before))) w of
           None \<Rightarrow> None
         | Some (err, w1) \<Rightarrow>
             if err \<noteq> 0 then Some (err, before @ prog # rest, w1)
             else
               (case bpf_program__set_type (bpf_prog prog) BPF_PROG_TYPE_EXT w1 of
                  None \<Rightarrow> None
                | Some w2 \<Rightarrow>
                    (case xdp_program__load prog w2 of
                       None \<Rightarrow> None
                     | Some (err', prog', w3) \<Rightarrow>
                         if err' \<noteq> 0 then Some (err', before @ prog' # rest, w3)
                         else
                           (case bpf_raw_tracepoint_open (prog_fd prog') w3 of
                              (lfd, w4) \<Rightarrow>
                                if lfd < 0 then Some (rv lfd, before @ prog' # rest, w4)
                                else attach_progs prog_fd' (before @ [prog'\<lparr>link_fd := lfd\<rparr>]) rest w4)))))"

text \<open>
  The dispatcher's constants are written into the object's read-only data; writing past
  the array of \<open>MAX_DISPATCHER_ACTIONS\<close> slots has no defined result.
\<close>

definition gen_xdp_multiprog :: "xdp_program list \<Rightarrow> world \<Rightarrow> (int \<times> xdp_program list \<times> world) option" where
  "gen_xdp_multiprog progs w =
     (case find_bpf_file PATH_MAX ''xdp-dispatcher.o'' w of
        Inl err \<Rightarrow> Some (err, progs, w)
      | Inr buf \<Rightarrow>
          (case bpf_object__open_file buf w of
             (Inl err, w1) \<Rightarrow> Some (err, progs, w1)
           | (Inr obj, w1) \<Rightarrow>
               (case map_of (objs w1) obj of
                  None \<Rightarrow> None
                | Some o1 \<Rightarrow>
                    (case o_rodata o1 of
                       None \<Rightarrow> map_option (\<lambda>w'. (- ENOENT, progs, w')) (bpf_object__close obj w1)
                     | Some (sz, rodata) \<Rightarrow>
                         if sz \<noteq> sizeof_xdp_dispatcher_config
                         then map_option (\<lambda>w'. (- EINVAL, progs, w')) (bpf_object__close obj w1)
                         else if length progs > MAX_DISPATCHER_ACTIONS then None
                         else
                           (case bpf_object__load obj
                                   (set_obj obj
                                      (o1\<lparr>o_rodata := Some (sz,
                                            \<lparr>num_progs_enabled = of_nat (length progs),
                                             cfg_chain_call_actions =
                                               map chain_call_actions progs
                                                 @ drop (length progs) (cfg_chain_call_actions rodata)\<rparr>)\<rparr>) w1) of
                              None \<Rightarrow> None
                            | Some (err, w2) \<Rightarrow>
                                if err \<noteq> 0
                                then map_option (\<lambda>w'. (err, progs, w')) (bpf_object__close obj w2)
                                else
                                  (case bpf_object__find_program_by_title w2 obj ''xdp_dispatcher'' of
                                     None \<Rightarrow> None
                                   | Some None \<Rightarrow>
                                       map_option (\<lambda>w'. (- ENOENT, progs, w')) (bpf_object__close obj w2)
                                   | Some (Some dispatcher_prog) \<Rightarrow>
                                       (case bpf_program__fd w2 (Some dispatcher_prog) of
                                          None \<Rightarrow> None
                                        | Some prog_fd' \<Rightarrow>
                                            (case attach_progs prog_fd' [] progs w2 of
                                               None \<Rightarrow> None
                                             | Some (err', progs', w3) \<Rightarrow>
                                                 if err' \<noteq> 0
                                                 then map_option (\<lambda>w'. (err', progs', w'))
                                                        (bpf_object__close obj w3)
                                                 else Some (prog_fd', progs', w3)))))))))"

subsection \<open>Attacher\<close>

datatype xdp_attach_mode = XDP_MODE_UNSPEC | XDP_MODE_NATIVE | XDP_MODE_SKB | XDP_MODE_HW

text \<open>
  \<open>qsort\<close> with \<open>cmp_xdp_programs\<close>, as an insertion sort: C leaves the algorithm open,
  and fixes the result only for a comparator that is consistent.
\<close>

fun qsort_insert :: "xdp_program \<Rightarrow> xdp_program list \<Rightarrow> xdp_program list option" where
  "qsort_insert a [] = Some [a]"
| "qsort_insert a (b # bs) =
     (case cmp_xdp_programs a b of
        None \<Rightarrow> None
      | Some c \<Rightarrow> if c \<le> 0 then Some (a # b # bs) else map_option ((#) b) (qsort_insert a bs))"

fun qsort :: "xdp_program list \<Rightarrow> xdp_program list option" where
  "qsort [] = Some []"
| "qsort (a # as) = (case qsort as of None \<Rightarrow> None | Some bs \<Rightarrow> qsort_insert a bs)"

definition mode_flags :: "xdp_attach_mode \<Rightarrow> 32 word" where
  "mode_flags mode =
     (case mode of
        XDP_MODE_SKB \<Rightarrow> XDP_FLAGS_SKB_MODE
      | XDP_MODE_NATIVE \<Rightarrow> XDP_FLAGS_DRV_MODE
      | XDP_MODE_HW \<Rightarrow> XDP_FLAGS_HW_MODE
      | XDP_MODE_UNSPEC \<Rightarrow> 0)"

text \<open>
  The attach itself, from the \<open>switch\<close> on the mode to the end of
  \<open>xdp_attach_programs\<close>: the result is \<open>prog_fd\<close>, or the error.
\<close>

definition attach_fd :: "int \<Rightarrow> int \<Rightarrow> bool \<Rightarrow> xdp_attach_mode \<Rightarrow> world \<Rightarrow> int \<times> world" where
  "attach_fd prog_fd' ifindex force mode w =
     (let xdp_flags = (if \<not> force then mode_flags mode OR XDP_FLAGS_UPDATE_IF_NOEXIST
                       else mode_flags mode)
      in case bpf_set_link_xdp_fd ifindex prog_fd' xdp_flags w of
           (err, w1) \<Rightarrow>
             (case (if err = - EEXIST \<and> xdp_flags AND XDP_FLAGS_UPDATE_IF_NOEXIST = 0
                    then (case bpf_set_link_xdp_fd ifindex (- 1)
                                 ((xdp_flags AND NOT XDP_FLAGS_MODES)
                                    OR (if mode = XDP_MODE_SKB then XDP_FLAGS_DRV_MODE
                                        else XDP_FLAGS_SKB_MODE)) w1 of
                            (err', w2) \<Rightarrow>
                              if err' = 0 then bpf_set_link_xdp_fd ifindex prog_fd' xdp_flags w2
                              else (err', w2))
                    else (err, w1)) of
                (err'', w3) \<Rightarrow> if err'' < 0 then (err'', w3) else (prog_fd', w3)))"

definition xdp_attach_programs :: "xdp_program list \<Rightarrow> int \<Rightarrow> bool \<Rightarrow> xdp_attach_mode \<Rightarrow> world
    \<Rightarrow> (int \<times> xdp_program list \<times> world) option" where
  "xdp_attach_programs progs ifindex force mode w =
     (if length progs = 0 then Some (- EINVAL, progs, w)
      else
        (case (if length progs > 1 then
                 (case qsort progs of None \<Rightarrow> None | Some sorted_progs \<Rightarrow> gen_xdp_multiprog sorted_progs w)
               else if prog_fd (progs ! 0) \<ge> 0 then Some (prog_fd (progs ! 0), progs, w)
               else map_option (\<lambda>(err, p, w'). (err, [p], w')) (xdp_program__load (progs ! 0) w)) of
           None \<Rightarrow> None
         | Some (prog_fd', progs1, w1) \<Rightarrow>
             if prog_fd' < 0 then Some (prog_fd', progs1, w1)
             else
               (case (if length progs > 1 then pin_multiprog prog_fd' progs1 w1
                      else Some (0, progs1, w1)) of
                  None \<Rightarrow> None
                | Some (err, progs2, w2) \<Rightarrow>
                    if err \<noteq> 0 then Some (err, progs2, w2)
                    else (case attach_fd prog_fd' ifindex force mode w2 of
                            (r, w3) \<Rightarrow> Some (r, progs2, w3)))))"

subsection \<open>States in which the pin store can work\<close>

text \<open>
  No fault is scheduled, \<open>get_bpffs_dir\<close> has found the library's directory \<open>dir\<close>, which
  exists, and \<open>dfd\<close> is an open descriptor of a program the kernel describes by \<open>info\<close>.
\<close>

definition pin_ready :: "string \<Rightarrow> bpf_prog_info \<Rightarrow> int \<Rightarrow> world \<Rightarrow> bool" where
  "pin_ready dir info dfd w \<longleftrightarrow>
     faults w = [] \<and> bpffs_dir_cache w = Some dir \<and> map_of (fs w) dir = Some I_DIR \<and>
     (\<exists>i. map_of (fds w) dfd = Some (FD_PROG i) \<and> map_of (kprogs w) i = Some info)"



subsection \<open>Concrete inputs\<close>

definition btf_int :: btf_type where
  "btf_int = btf_void\<lparr>t_kind := BTF_KIND_INT, size_or_type := 4\<rparr>"
definition btf_ptr :: "nat \<Rightarrow> btf_type" where
  "btf_ptr ty = btf_void\<lparr>t_kind := BTF_KIND_PTR, size_or_type := ty\<rparr>"
definition btf_arr :: "32 word \<Rightarrow> btf_type" where
  "btf_arr n = btf_void\<lparr>t_kind := BTF_KIND_ARRAY,
     t_array := \<lparr>arr_type = 1, index_type = 1, nelems = n\<rparr>\<rparr>"
definition btf_struct :: "nat \<Rightarrow> btf_member list \<Rightarrow> btf_type" where
  "btf_struct sz ms = btf_void\<lparr>t_kind := BTF_KIND_STRUCT, size_or_type := sz, t_members := ms\<rparr>"
definition btf_var :: "nat \<Rightarrow> nat \<Rightarrow> nat \<Rightarrow> btf_type" where
  "btf_var off ty l = btf_void\<lparr>name_off := off, t_kind := BTF_KIND_VAR, size_or_type := ty, t_linkage := l\<rparr>"
definition btf_datasec :: "nat \<Rightarrow> btf_var_secinfo list \<Rightarrow> btf_type" where
  "btf_datasec off vs = btf_void\<lparr>name_off := off, t_kind := BTF_KIND_DATASEC, t_secinfos := vs\<rparr>"

definition ex_strings :: string where
  "ex_strings = [NUL] @ ''.xdp_run_config'' @ [NUL] @ ''_foo'' @ [NUL] @ ''priority'' @ [NUL]
      @ ''XDP_PASS'' @ [NUL] @ ''XDP_DROP'' @ [NUL] @ ''bogus'' @ [NUL] @ ''_bar'' @ [NUL]"

definition m_priority :: "nat \<Rightarrow> btf_member" where
  "m_priority ty = \<lparr>m_name_off = 22, m_type = ty, m_offset = 0\<rparr>"
definition m_pass :: "nat \<Rightarrow> btf_member" where
  "m_pass ty = \<lparr>m_name_off = 31, m_type = ty, m_offset = 64\<rparr>"
definition m_drop :: "nat \<Rightarrow> btf_member" where
  "m_drop ty = \<lparr>m_name_off = 40, m_type = ty, m_offset = 128\<rparr>"
definition m_bogus :: "nat \<Rightarrow> btf_member" where
  "m_bogus ty = \<lparr>m_name_off = 49, m_type = ty, m_offset = 64\<rparr>"

definition s4_btf :: btf where
  "s4_btf = \<lparr>btf_addr = 1, types =
     [btf_int, btf_arr 15, btf_ptr 2, btf_arr 1, btf_ptr 4, btf_arr 0, btf_ptr 6,
      btf_struct 24 [m_priority 3, m_pass 5, m_drop 7], btf_var 17 8 1,
      btf_datasec 1 [\<lparr>vsi_type = 9, vsi_offset = 0, vsi_size = 24\<rparr>]],
     strings = ex_strings\<rparr>"

definition new_prog :: xdp_program where
  "new_prog = \<lparr>bpf_prog = None, bpf_obj = None, btf = None, prog_fd = - 1, link_fd = - 1,
     link_pin_path = None, prog_name = None, prog_tag = replicate 8 0, load_time = 0,
     from_external_obj = False, run_prio = 50, chain_call_actions = 4\<rparr>"

definition s4_prog :: xdp_program where
  "s4_prog = new_prog\<lparr>btf := Some s4_btf, prog_name := Some ''foo''\<rparr>"

definition bogus_btf :: btf where
  "bogus_btf = \<lparr>btf_addr = 1, types =
     [btf_int, btf_arr 15, btf_ptr 2, btf_arr 1, btf_ptr 4,
      btf_struct 16 [m_priority 3, m_bogus 5], btf_var 17 6 1,
      btf_datasec 1 [\<lparr>vsi_type = 7, vsi_offset = 0, vsi_size = 16\<rparr>]],
     strings = ex_strings\<rparr>"

definition bogus_prog :: xdp_program where
  "bogus_prog = new_prog\<lparr>btf := Some bogus_btf, prog_name := Some ''foo''\<rparr>"

text \<open>
  A run-config struct \<open>_foo = { priority, XDP_DROP, bogus }\<close> whose \<open>priority\<close> member is
  reached through a typedef and a \<open>const\<close>, in a variable of \<open>const\<close> struct type that
  follows the variable \<open>_bar\<close> in the section; and a struct \<open>{ bogus, priority }\<close>.
\<close>

definition btf_const :: "nat \<Rightarrow> btf_type" where
  "btf_const ty = btf_void\<lparr>t_kind := BTF_KIND_CONST, size_or_type := ty\<rparr>"
definition btf_typedef :: "nat \<Rightarrow> nat \<Rightarrow> btf_type" where
  "btf_typedef off ty = btf_void\<lparr>name_off := off, t_kind := BTF_KIND_TYPEDEF, size_or_type := ty\<rparr>"

definition mod_btf :: btf where
  "mod_btf = \<lparr>btf_addr = 1, types =
     [btf_int, btf_arr 15, btf_ptr 2, btf_const 3, btf_typedef 55 4, btf_arr 1, btf_ptr 6,
      btf_struct 24 [m_priority 5, m_drop 7, m_bogus 3], btf_const 8, btf_var 17 9 1,
      btf_var 55 8 1,
      btf_datasec 1 [\<lparr>vsi_type = 11, vsi_offset = 0, vsi_size = 24\<rparr>,
                     \<lparr>vsi_type = 10, vsi_offset = 24, vsi_size = 24\<rparr>]],
     strings = ex_strings\<rparr>"

definition mod_prog :: xdp_program where
  "mod_prog = new_prog\<lparr>btf := Some mod_btf, prog_name := Some ''foo''\<rparr>"

definition late_btf :: btf where
  "late_btf = \<lparr>btf_addr = 1, types =
     [btf_int, btf_arr 15, btf_ptr 2, btf_arr 1, btf_ptr 4,
      btf_struct 16 [m_bogus 5, m_priority 3], btf_var 17 6 1,
      btf_datasec 1 [\<lparr>vsi_type = 7, vsi_offset = 0, vsi_size = 16\<rparr>]],
     strings = ex_strings\<rparr>"

definition late_prog :: xdp_program where
  "late_prog = new_prog\<lparr>btf := Some late_btf, prog_name := Some ''foo''\<rparr>"

definition dup_btf :: btf where
  "dup_btf = \<lparr>btf_addr = 1, types =
     [btf_int, btf_arr 15, btf_ptr 2, btf_arr 1, btf_ptr 4,
      btf_struct 8 [m_priority 3], btf_struct 8 [m_priority 5, m_drop 5],
      btf_var 55 7 1, btf_var 17 6 1, btf_var 17 7 1,
      btf_datasec 1 [\<lparr>vsi_type = 8, vsi_offset = 0, vsi_size = 16\<rparr>,
                     \<lparr>vsi_type = 9, vsi_offset = 16, vsi_size = 8\<rparr>,
                     \<lparr>vsi_type = 10, vsi_offset = 24, vsi_size = 16\<rparr>]],
     strings = ex_strings\<rparr>"

definition dup_prog :: xdp_program where
  "dup_prog = new_prog\<lparr>btf := Some dup_btf, prog_name := Some ''foo''\<rparr>"




text \<open>A process with nothing open, on a kernel that holds nothing.\<close>

definition empty_world :: world where
  "empty_world = \<lparr>fs = [], fstypes = [], env_bpffs = None, fds = [], kprogs = [], kbtfs = [],
     xdp_attached = [], ktime = 0, objs = [], files = [], bpf_file_dirs = [], heap = [],
     faults = [], trace = [], bpf_mnt_cache = None, bpffs_dir_cache = None\<rparr>"

text \<open>
  The kernel holds program 7, named \<open>foo\<close>, whose type information declares the run
  configuration \<open>_foo = { priority, bogus }\<close>.
\<close>

definition leak_world :: world where
  "leak_world = empty_world\<lparr>
     kprogs := [(7, \<lparr>info_id = 7, info_name = ''foo'', info_tag = [1, 2, 3, 4, 5, 6, 7, 8],
                     info_load_time = 1000, info_btf_id = 3\<rparr>)],
     kbtfs := [(3, bogus_btf)]\<rparr>"

text \<open>
  A bpffs at \<open>/sys/fs/bpf\<close>; descriptor 3 is the dispatcher (program 7), descriptor 4 the
  link of the first of two handles; the second handle has no link.
\<close>

definition pin_world :: world where
  "pin_world = empty_world\<lparr>
     fs := [(''/sys/fs/bpf'', I_DIR)],
     fstypes := [(''/sys/fs/bpf'', BPF_FS_MAGIC)],
     fds := [(3, FD_PROG 7), (4, FD_LINK 8)],
     kprogs := [(7, \<lparr>info_id = 7, info_name = ''xdp_dispatcher'', info_tag = [1, 2, 3, 4, 5, 6, 7, 8],
                     info_load_time = 1000, info_btf_id = 0\<rparr>)]\<rparr>"

definition linked_prog :: xdp_program where
  "linked_prog = new_prog\<lparr>prog_fd := 5, link_fd := 4, prog_name := Some ''a''\<rparr>"

definition unlinked_prog :: xdp_program where
  "unlinked_prog = new_prog\<lparr>prog_fd := 6, prog_name := Some ''b''\<rparr>"

text \<open>
  A handle built on an external object at address 1, with two open descriptors and its
  name on the heap; descriptor 9 and the type information at address 4 belong to others.
\<close>

definition ext_world :: world where
  "ext_world = empty_world\<lparr>
     fds := [(5, FD_PROG 7), (6, FD_LINK 7), (9, FD_PROG 8)],
     objs := [(1, \<lparr>o_progs = [], o_btf = Some s4_btf, o_rodata = None, o_loaded = True\<rparr>)],
     heap := [A_STR ''foo'', A_HANDLE, A_BTF 4]\<rparr>"

definition ext_prog :: xdp_program where
  "ext_prog = new_prog\<lparr>bpf_obj := Some 1, btf := Some s4_btf, prog_fd := 5, link_fd := 6,
     prog_name := Some ''foo'', from_external_obj := True\<rparr>"

text \<open>
  Scenario S3 of the specification: interface 42 holds program 9 in native mode; the
  handle, loaded as program 7 on descriptor 5, is to be attached in skb mode.
\<close>

definition s3_world :: world where
  "s3_world = empty_world\<lparr>
     fds := [(5, FD_PROG 7)],
     kprogs := [(7, \<lparr>info_id = 7, info_name = ''h'', info_tag = [1, 2, 3, 4, 5, 6, 7, 8],
                     info_load_time = 1000, info_btf_id = 0\<rparr>),
                (9, \<lparr>info_id = 9, info_name = ''old'', info_tag = [8, 7, 6, 5, 4, 3, 2, 1],
                     info_load_time = 500, info_btf_id = 0\<rparr>)],
     xdp_attached := [(42, XDP_FLAGS_DRV_MODE, 9)]\<rparr>"

definition s3_prog :: xdp_program where
  "s3_prog = new_prog\<lparr>prog_fd := 5, prog_name := Some ''h''\<rparr>"




section \<open>Properties\<close>

subsection \<open>Unfolding sets\<close>

lemmas errno_defs = EBUSY_def EPERM_def ENOENT_def EBADF_def ENOMEM_def EEXIST_def ENOTDIR_def
  EISDIR_def EINVAL_def ENAMETOOLONG_def ENOTEMPTY_def EOPNOTSUPP_def ENOTSUP_def

lemmas btf_defs = btf__type_by_id_def btf__get_nr_types_def btf__name_by_offset_def
  btf_is_mod_def btf_is_typedef_def btf_is_ptr_def btf_is_array_def btf_is_struct_def
  btf_is_var_def btf_is_datasec_def BTF_VAR_STATIC_def BTF_VAR_GLOBAL_ALLOCATED_def NUL_def

lemmas ex_btf_defs = btf_int_def btf_ptr_def btf_arr_def btf_struct_def btf_var_def
  btf_datasec_def ex_strings_def m_priority_def m_pass_def m_drop_def m_bogus_def
  new_prog_def btf_void_def btf_const_def btf_typedef_def

lemmas parse_defs = xdp_parse_run_config_def xdp_program__btf_def xdp_program__name_def
  check_snprintf_def parse_var_def get_field_int_def skip_mods_and_typedefs.simps
  XDP_RUN_CONFIG_SEC_def get_xdp_action_def xdp_action_names_def byte_def
  xdp_program__set_chain_call_enabled_def xdp_program__chain_call_enabled_def

subsection \<open>Strings, action names and chain-call bits\<close>

lemma byte_eq_0: "byte c = 0 \<longleftrightarrow> c = NUL"
proof -
  have "of_char (CHR 0x00) = (0::nat)" by simp
  then have "of_char c = (0::nat) \<longleftrightarrow> c = CHR 0x00"
    by (metis of_char_eq_iff)
  then show ?thesis by (simp add: byte_def NUL_def)
qed

lemma byte_inj: "byte x = byte y \<Longrightarrow> x = y"
  by (simp add: byte_def)

lemma strcmp_same: "strcmp s s = 0"
  by (induction s) auto

lemma strcmp_eq_0: "NUL \<notin> set a \<Longrightarrow> NUL \<notin> set b \<Longrightarrow> strcmp a b = 0 \<Longrightarrow> a = b"
  by (induction a b rule: strcmp.induct) (auto simp: byte_eq_0 dest: byte_inj split: if_splits)

lemma strcmp_eq_0_iff: "NUL \<notin> set a \<Longrightarrow> NUL \<notin> set b \<Longrightarrow> strcmp a b = 0 \<longleftrightarrow> a = b"
  using strcmp_eq_0 strcmp_same by blast

lemma cmp_neg: "strcmp b a = - strcmp a b"
  by (induction a b rule: strcmp.induct) auto

lemma memcmp_neg: "memcmp ys xs n = - memcmp xs ys n"
  by (induction xs ys n rule: memcmp.induct) auto


lemma name_no_NUL: "btf__name_by_offset b off = Some s \<Longrightarrow> NUL \<notin> set s"
  by (auto simp: btf__name_by_offset_def split: if_splits dest: set_takeWhileD)

lemma action_names_no_NUL: "n \<in> set xdp_action_names \<Longrightarrow> NUL \<notin> set n"
  by (auto simp: xdp_action_names_def NUL_def)

lemma get_xdp_action_from_None:
  "NUL \<notin> set s \<Longrightarrow> \<forall>n\<in>set names. NUL \<notin> set n \<Longrightarrow>
     get_xdp_action_from s i names = None \<longleftrightarrow> s \<notin> set names"
  by (induction names arbitrary: i) (auto simp: strcmp_eq_0_iff)

lemma get_xdp_action_None:
  "NUL \<notin> set s \<Longrightarrow> get_xdp_action s = None \<longleftrightarrow> s \<notin> set xdp_action_names"
  unfolding get_xdp_action_def
  by (rule get_xdp_action_from_None) (auto dest: action_names_no_NUL)

lemma get_xdp_action_from_Some:
  "NUL \<notin> set s \<Longrightarrow> \<forall>n\<in>set names. NUL \<notin> set n \<Longrightarrow>
     get_xdp_action_from s i names = Some a \<Longrightarrow> i \<le> a \<and> a < i + length names \<and> names ! (a - i) = s"
proof (induction names arbitrary: i)
  case Nil
  then show ?case by simp
next
  case (Cons n names)
  show ?case
  proof (cases "strcmp s n = 0")
    case True
    with Cons.prems show ?thesis by (auto simp: strcmp_eq_0_iff)
  next
    case False
    with Cons.prems have "get_xdp_action_from s (Suc i) names = Some a" by simp
    with Cons.IH[of "Suc i"] Cons.prems
    have "Suc i \<le> a \<and> a < Suc i + length names \<and> names ! (a - Suc i) = s" by simp
    then show ?thesis by (auto simp: nth_Cons')
  qed
qed

lemma get_xdp_action_Some:
  assumes "NUL \<notin> set s" "get_xdp_action s = Some a"
  shows "a < 5 \<and> xdp_action_names ! a = s"
proof -
  have "\<forall>n\<in>set xdp_action_names. NUL \<notin> set n" by (auto dest: action_names_no_NUL)
  from get_xdp_action_from_Some[OF assms(1) this, of 0 a] assms(2)
  show ?thesis by (simp add: get_xdp_action_def xdp_action_names_def)
qed

lemma chain_call_enabled_iff_bit:
  "xdp_program__chain_call_enabled p a \<longleftrightarrow> bit (chain_call_actions p) a"
  by (simp add: xdp_program__chain_call_enabled_def bit_iff_and_push_bit_not_eq_0)

lemma chain_call_set_get:
  "a < 32 \<Longrightarrow> xdp_program__chain_call_enabled (xdp_program__set_chain_call_enabled p a e) a'
     = (if a' = a then e else xdp_program__chain_call_enabled p a')"
  by (auto simp: chain_call_enabled_iff_bit xdp_program__set_chain_call_enabled_def
       bit_simps dest: bit_imp_le_length)

lemma set_chain_call_run_prio [simp]:
  "run_prio (xdp_program__set_chain_call_enabled p a e) = run_prio p"
  by (simp add: xdp_program__set_chain_call_enabled_def)

subsection \<open>The metadata parser\<close>

lemma get_field_int_Some:
  "get_field_int b m = Some (Some n) \<longleftrightarrow>
     (\<exists>t arr_t. skip_mods_and_typedefs b (m_type m) = Some t \<and> btf_is_ptr t \<and>
        btf__type_by_id b (size_or_type t) = Some arr_t \<and> btf_is_array arr_t \<and>
        n = nelems (t_array arr_t))"
  by (auto simp: get_field_int_def split: option.splits if_splits)

lemma parse_members_append:
  "parse_members b ms1 p = Some (0, p1) \<Longrightarrow> parse_members b (ms1 @ ms) p = parse_members b ms p1"
  by (induction ms1 arbitrary: p) (auto simp: errno_defs split: option.splits if_splits)

lemma priority_eq: "btf__name_by_offset b off = Some mname \<Longrightarrow> strcmp mname ''priority'' = 0 \<longleftrightarrow> mname = ''priority''"
proof -
  assume nm: "btf__name_by_offset b off = Some mname"
  have nn: "NUL \<notin> set mname" "NUL \<notin> set ''priority''"
    using name_no_NUL[OF nm] by (auto simp: NUL_def)
  show ?thesis using strcmp_eq_0_iff[OF nn] .
qed

lemma parse_members_run_prio_keep:
  "parse_members b ms p = Some (e, p') \<Longrightarrow>
   \<forall>m\<in>set ms. btf__name_by_offset b (m_name_off m) \<noteq> Some ''priority'' \<Longrightarrow>
   run_prio p' = run_prio p"
proof (induction ms arbitrary: p)
  case Nil
  then show ?case by simp
next
  case (Cons m ms)
  have rest: "\<forall>m\<in>set ms. btf__name_by_offset b (m_name_off m) \<noteq> Some ''priority''"
    using Cons.prems(2) by simp
  show ?case
  proof (cases "btf__name_by_offset b (m_name_off m)")
    case None
    with Cons.prems(1) show ?thesis by simp
  next
    case (Some mname)
    with Cons.prems(2) have "mname \<noteq> ''priority''" by auto
    then have np: "strcmp mname ''priority'' \<noteq> 0" using priority_eq[OF Some] by simp
    show ?thesis
    proof (cases "get_xdp_action mname")
      case None
      with Some np Cons.prems(1) show ?thesis by simp
    next
      case (Some act)
      note act = this
      show ?thesis
      proof (cases "get_field_int b m")
        case None
        with \<open>btf__name_by_offset b (m_name_off m) = Some mname\<close> np act Cons.prems(1)
        show ?thesis by simp
      next
        case (Some r)
        show ?thesis
        proof (cases r)
          case None
          with Some \<open>btf__name_by_offset b (m_name_off m) = Some mname\<close> np act Cons.prems(1)
          show ?thesis by simp
        next
          case (Some val)
          with \<open>get_field_int b m = Some r\<close> \<open>btf__name_by_offset b (m_name_off m) = Some mname\<close>
            np act Cons.prems(1)
          have "parse_members b ms (xdp_program__set_chain_call_enabled p act (val \<noteq> 0)) = Some (e, p')"
            by simp
          from Cons.IH[OF this rest] show ?thesis by simp
        qed
      qed
    qed
  qed
qed

lemma parse_members_chain_call_keep:
  "parse_members b ms p = Some (e, p') \<Longrightarrow>
   \<forall>m\<in>set ms. btf__name_by_offset b (m_name_off m) \<noteq> Some (xdp_action_names ! a) \<Longrightarrow>
   xdp_program__chain_call_enabled p' a = xdp_program__chain_call_enabled p a"
proof (induction ms arbitrary: p)
  case Nil
  then show ?case by simp
next
  case (Cons m ms)
  have rest: "\<forall>m\<in>set ms. btf__name_by_offset b (m_name_off m) \<noteq> Some (xdp_action_names ! a)"
    using Cons.prems(2) by simp
  show ?case
  proof (cases "btf__name_by_offset b (m_name_off m)")
    case None
    with Cons.prems(1) show ?thesis by simp
  next
    case (Some mname)
    note nm = this
    show ?thesis
    proof (cases "get_field_int b m")
      case None
      with nm Cons.prems(1) show ?thesis by (simp split: if_splits option.splits)
    next
      case (Some r)
      note gf = this
      show ?thesis
      proof (cases r)
        case None
        with gf nm Cons.prems(1) show ?thesis by (simp split: if_splits option.splits)
      next
        case (Some val)
        note r = this
        show ?thesis
        proof (cases "strcmp mname ''priority'' = 0")
          case True
          with gf nm r Cons.prems(1) have "parse_members b ms (p\<lparr>run_prio := val\<rparr>) = Some (e, p')"
            by simp
          from Cons.IH[OF this rest] show ?thesis by (simp add: xdp_program__chain_call_enabled_def)
        next
          case False
          note np = this
          show ?thesis
          proof (cases "get_xdp_action mname")
            case None
            with nm np Cons.prems(1) show ?thesis by simp
          next
            case (Some act)
            with gf nm r np Cons.prems(1)
            have rec: "parse_members b ms (xdp_program__set_chain_call_enabled p act (val \<noteq> 0)) = Some (e, p')"
              by simp
            from get_xdp_action_Some[OF name_no_NUL[OF nm] Some]
            have a5: "act < 5" and nth: "xdp_action_names ! act = mname" by auto
            have "act \<noteq> a" using Cons.prems(2) nm nth by auto
            moreover have "xdp_program__chain_call_enabled p' a =
                xdp_program__chain_call_enabled (xdp_program__set_chain_call_enabled p act (val \<noteq> 0)) a"
              using Cons.IH[OF rec rest] .
            ultimately show ?thesis using a5 by (simp add: chain_call_set_get)
          qed
        qed
      qed
    qed
  qed
qed

lemma parse_vars_skip:
  assumes "\<forall>v\<in>set vs1. \<exists>var name. btf__type_by_id b (vsi_type v) = Some var \<and>
             btf__name_by_offset b (name_off var) = Some name \<and> strcmp name sn \<noteq> 0"
  shows "parse_vars b sn (vs1 @ vs) p = parse_vars b sn vs p"
  using assms by (induction vs1) auto

lemma xdp_parse_run_config_members:
  assumes "xdp_program__btf p = Some b" "xdp_program__name p = Some n"
    and "check_snprintf 100 (''_'' @ n) = 0"
    and "find_run_config_sec b (types b) = Some (Some sec)"
    and "t_secinfos sec = vs1 @ vi # vs2"
    and "\<forall>v\<in>set vs1. \<exists>var name. btf__type_by_id b (vsi_type v) = Some var \<and>
             btf__name_by_offset b (name_off var) = Some name \<and> strcmp name (''_'' @ n) \<noteq> 0"
    and "btf__type_by_id b (vsi_type vi) = Some var"
    and "btf__name_by_offset b (name_off var) = Some vname" "strcmp vname (''_'' @ n) = 0"
    and "btf_is_var var"
    and "t_linkage var = BTF_VAR_GLOBAL_ALLOCATED \<or> t_linkage var = BTF_VAR_STATIC"
    and "skip_mods_and_typedefs b (size_or_type var) = Some def" "btf_is_struct def"
    and "size_or_type def \<le> vsi_size vi"
  shows "xdp_parse_run_config p = parse_members b (t_members def) p"
proof -
  define sn where "sn = ''_'' @ n"
  note skip = assms(6)[folded sn_def] and hit = assms(9)[folded sn_def] and fits = assms(3)[folded sn_def]
  have "parse_vars b sn (vs1 @ vi # vs2) p = parse_var b vi var p"
    using assms(7,8) hit by (simp add: parse_vars_skip[OF skip])
  moreover have "parse_var b vi var p = parse_members b (t_members def) p"
    using assms(10-14) by (auto simp: parse_var_def)
  moreover have "xdp_parse_run_config p = parse_vars b sn (t_secinfos sec) p"
    unfolding xdp_parse_run_config_def
    by (simp only: assms(1,2,3,4) sn_def option.case if_False simp_thms)
  ultimately show ?thesis
    using assms(5) by simp
qed

lemma priority_no_action: "get_xdp_action ''priority'' = None"
  by (simp add: get_xdp_action_def xdp_action_names_def byte_def)

text \<open>
Scenario S4 of the specification: \<open>_foo = { priority \<rightarrow> 15, XDP_PASS \<rightarrow> 1, XDP_DROP \<rightarrow> 0 }\<close>
  gives priority 15, the PASS bit set and the DROP bit clear (the bitmap stays \<open>1 << XDP_PASS\<close>).
\<close>

lemma s4_parse:
  "xdp_parse_run_config s4_prog = Some (0, s4_prog\<lparr>run_prio := 15, chain_call_actions := 4\<rparr>)"
  by (simp add: parse_defs s4_prog_def s4_btf_def ex_btf_defs btf_defs)

text \<open>
The struct \<open>{ priority, XDP_DROP, bogus }\<close>: the parse fails at \<open>bogus\<close>, and the handle
  holds what the two members before it stored.
\<close>

lemma mod_parse:
  "xdp_parse_run_config mod_prog = Some (- ENOTSUP, mod_prog\<lparr>run_prio := 15, chain_call_actions := 6\<rparr>)"
  by (simp add: parse_defs mod_prog_def mod_btf_def btf_const_def btf_typedef_def ex_btf_defs btf_defs)

text \<open>
Claim C3, as the code has it. A member whose name the string section resolves, and
  that is neither \<open>priority\<close> nor one of the five action names, ends the parse with
  \<open>- ENOTSUP\<close> once the members before it have been accepted. This is not
  \<open>- EINVAL\<close>; it is the value \<open>- EOPNOTSUPP\<close> that a rejected linkage returns.
\<close>

theorem parse_members_unknown_name:
  assumes "parse_members b ms1 p = Some (0, p1)"
      and "btf__name_by_offset b (m_name_off m) = Some mname"
      and "mname \<noteq> ''priority''" and "mname \<notin> set xdp_action_names"
  shows "parse_members b (ms1 @ m # ms2) p = Some (- ENOTSUP, p1) \<and> - ENOTSUP \<noteq> - EINVAL
         \<and> ENOTSUP = EOPNOTSUPP"
proof -
  have nn: "NUL \<notin> set mname" using name_no_NUL[OF assms(2)] .
  have "NUL \<notin> set ''priority''" by (simp add: NUL_def)
  with nn assms(3) have "strcmp mname ''priority'' \<noteq> 0" by (simp add: strcmp_eq_0_iff)
  moreover have "get_xdp_action mname = None" using nn assms(4) by (simp add: get_xdp_action_None)
  ultimately have "parse_members b (m # ms2) p1 = Some (- ENOTSUP, p1)"
    using assms(2) by simp
  with parse_members_append[OF assms(1)] show ?thesis by (simp add: errno_defs)
qed

theorem parse_members_unknown_name_witness:
  "parse_members bogus_btf [m_priority 3] bogus_prog = Some (0, bogus_prog\<lparr>run_prio := 15\<rparr>) \<and>
   btf__name_by_offset bogus_btf (m_name_off (m_bogus 5)) = Some ''bogus'' \<and>
   ''bogus'' \<noteq> ''priority'' \<and> ''bogus'' \<notin> set xdp_action_names \<and>
   parse_members bogus_btf ([m_priority 3] @ m_bogus 5 # []) bogus_prog
     = Some (- ENOTSUP, bogus_prog\<lparr>run_prio := 15\<rparr>) \<and>
   - ENOTSUP \<noteq> - EINVAL \<and> ENOTSUP = EOPNOTSUPP"
proof -
  have h1: "parse_members bogus_btf [m_priority 3] bogus_prog = Some (0, bogus_prog\<lparr>run_prio := 15\<rparr>)"
    by (simp add: parse_defs bogus_prog_def bogus_btf_def ex_btf_defs btf_defs)
  have h2: "btf__name_by_offset bogus_btf (m_name_off (m_bogus 5)) = Some ''bogus''"
    by (simp add: bogus_btf_def ex_btf_defs btf_defs)
  have h3: "''bogus'' \<noteq> ''priority''" by simp
  have h4: "''bogus'' \<notin> set xdp_action_names" by (simp add: xdp_action_names_def)
  from parse_members_unknown_name[OF h1 h2 h3 h4, of "[]"] h1 h2 h3 h4 show ?thesis by simp
qed

text \<open>
Claim C3 as the specification states it (the parser fails with \<open>EINVAL\<close>) does not
  hold: for a run-config struct \<open>{ priority, bogus }\<close> the parser returns \<open>- ENOTSUP\<close>.
\<close>

theorem parse_run_config_unknown_member_counterexample:
  "map_option fst (xdp_parse_run_config bogus_prog) = Some (- ENOTSUP) \<and>
   map_option fst (xdp_parse_run_config bogus_prog) \<noteq> Some (- EINVAL)"
  by (simp add: parse_defs bogus_prog_def bogus_btf_def ex_btf_defs btf_defs errno_defs)

text \<open>
Claim C4, as the code has it. The parser has found the run-config variable: the first
  variable of the section named \<open>"_" + name\<close>, a variable of accepted linkage whose type
  is, under modifiers and typedefs, a struct no larger than its section entry. The member
  loop has accepted the members \<open>ms1\<close> and reaches the member \<open>m\<close>, whose type is, under
  modifiers and typedefs, a pointer to an array. If \<open>m\<close> is named \<open>priority\<close>, the parse goes
  on with the array's element count as the handle's priority; if it is named after an
  action, with the action's chain-call bit set exactly when the element count is not zero.
  Whatever the parser then returns, 0 or the error of a later member, the handle it leaves
  holds that value, as long as no later member has the same name.
\<close>

theorem parse_run_config_sets_fields:
  assumes btf: "xdp_program__btf p = Some b" and name: "xdp_program__name p = Some n"
    and fits: "check_snprintf 100 (''_'' @ n) = 0"
    and sec: "find_run_config_sec b (types b) = Some (Some sec)"
    and vars: "t_secinfos sec = vs1 @ vi # vs2"
    and skip: "\<forall>v\<in>set vs1. \<exists>var name. btf__type_by_id b (vsi_type v) = Some var \<and>
             btf__name_by_offset b (name_off var) = Some name \<and> strcmp name (''_'' @ n) \<noteq> 0"
    and var: "btf__type_by_id b (vsi_type vi) = Some var"
    and vname: "btf__name_by_offset b (name_off var) = Some vname" "strcmp vname (''_'' @ n) = 0"
    and isvar: "btf_is_var var"
    and linkage: "t_linkage var = BTF_VAR_GLOBAL_ALLOCATED \<or> t_linkage var = BTF_VAR_STATIC"
    and struct: "skip_mods_and_typedefs b (size_or_type var) = Some def" "btf_is_struct def"
    and size: "size_or_type def \<le> vsi_size vi"
    and mems: "t_members def = ms1 @ m # ms2"
    and before: "parse_members b ms1 p = Some (0, p1)"
    and mname: "btf__name_by_offset b (m_name_off m) = Some mname"
    and ty: "skip_mods_and_typedefs b (m_type m) = Some t" "btf_is_ptr t"
    and arr: "btf__type_by_id b (size_or_type t) = Some arr_t" "btf_is_array arr_t"
  shows "(mname = ''priority'' \<longrightarrow>
            xdp_parse_run_config p = parse_members b ms2 (p1\<lparr>run_prio := nelems (t_array arr_t)\<rparr>)) \<and>
         (\<forall>act. get_xdp_action mname = Some act \<longrightarrow>
            xdp_parse_run_config p =
              parse_members b ms2
                (xdp_program__set_chain_call_enabled p1 act (nelems (t_array arr_t) \<noteq> 0))) \<and>
         (\<forall>e p'. xdp_parse_run_config p = Some (e, p') \<and>
                 (\<forall>m'\<in>set ms2. btf__name_by_offset b (m_name_off m') \<noteq> Some mname) \<longrightarrow>
            (mname = ''priority'' \<longrightarrow> run_prio p' = nelems (t_array arr_t)) \<and>
            (\<forall>act. get_xdp_action mname = Some act \<longrightarrow>
               xdp_program__chain_call_enabled p' act = (nelems (t_array arr_t) \<noteq> 0)))"
proof -
  define N where "N = nelems (t_array arr_t)"
  have gf: "get_field_int b m = Some (Some N)"
    unfolding get_field_int_Some N_def using ty arr by blast
  have "xdp_parse_run_config p = parse_members b (t_members def) p"
    by (rule xdp_parse_run_config_members[OF btf name fits sec vars skip var vname isvar linkage struct size])
  then have reach: "xdp_parse_run_config p = parse_members b (m # ms2) p1"
    using parse_members_append[OF before, of "m # ms2"] by (simp only: mems)
  have prio: "xdp_parse_run_config p = parse_members b ms2 (p1\<lparr>run_prio := N\<rparr>)" if "mname = ''priority''"
    unfolding reach using that mname gf by simp
  have act: "xdp_parse_run_config p = parse_members b ms2 (xdp_program__set_chain_call_enabled p1 a (N \<noteq> 0))"
    if "get_xdp_action mname = Some a" for a
  proof -
    from that have "mname \<noteq> ''priority''" using priority_no_action by auto
    then have "strcmp mname ''priority'' \<noteq> 0" using priority_eq[OF mname] by simp
    then show ?thesis unfolding reach using that mname gf by simp
  qed
  have stored: "(mname = ''priority'' \<longrightarrow> run_prio p' = N) \<and>
        (\<forall>a. get_xdp_action mname = Some a \<longrightarrow> xdp_program__chain_call_enabled p' a = (N \<noteq> 0))"
    if res: "xdp_parse_run_config p = Some (e, p')"
      and later: "\<forall>m'\<in>set ms2. btf__name_by_offset b (m_name_off m') \<noteq> Some mname" for e p'
  proof (intro conjI impI allI)
    assume pr: "mname = ''priority''"
    from prio[OF pr] res have "parse_members b ms2 (p1\<lparr>run_prio := N\<rparr>) = Some (e, p')" by simp
    from parse_members_run_prio_keep[OF this] later pr show "run_prio p' = N" by simp
  next
    fix a assume a: "get_xdp_action mname = Some a"
    from act[OF a] res
    have r: "parse_members b ms2 (xdp_program__set_chain_call_enabled p1 a (N \<noteq> 0)) = Some (e, p')"
      by simp
    from get_xdp_action_Some[OF name_no_NUL[OF mname] a]
    have a5: "a < 5" and nth: "xdp_action_names ! a = mname" by auto
    from parse_members_chain_call_keep[OF r, of a] later nth
    have "xdp_program__chain_call_enabled p' a =
        xdp_program__chain_call_enabled (xdp_program__set_chain_call_enabled p1 a (N \<noteq> 0)) a"
      by simp
    with a5 show "xdp_program__chain_call_enabled p' a = (N \<noteq> 0)"
      by (simp add: chain_call_set_get)
  qed
  from prio act stored show ?thesis unfolding N_def by blast
qed

theorem parse_run_config_sets_fields_witness:
  "xdp_parse_run_config mod_prog
     = Some (- ENOTSUP, mod_prog\<lparr>run_prio := 15, chain_call_actions := 6\<rparr>) \<and>
   parse_members mod_btf [m_priority 5] mod_prog = Some (0, mod_prog\<lparr>run_prio := 15\<rparr>) \<and>
   skip_mods_and_typedefs mod_btf (m_type (m_priority 5)) = Some (btf_ptr 2) \<and>
   get_xdp_action ''XDP_DROP'' = Some XDP_DROP \<and>
   xdp_program__chain_call_enabled (mod_prog\<lparr>run_prio := 15, chain_call_actions := 6\<rparr>) XDP_DROP \<and>
   xdp_parse_run_config s4_prog = Some (0, s4_prog\<lparr>run_prio := 15, chain_call_actions := 4\<rparr>)"
proof -
  let ?def = "btf_struct 24 [m_priority 5, m_drop 7, m_bogus 3]"
  let ?sec = "btf_datasec 1 [\<lparr>vsi_type = 11, vsi_offset = 0, vsi_size = 24\<rparr>,
                             \<lparr>vsi_type = 10, vsi_offset = 24, vsi_size = 24\<rparr>]"
  have btf: "xdp_program__btf mod_prog = Some mod_btf"
    by (simp add: xdp_program__btf_def mod_prog_def)
  have name: "xdp_program__name mod_prog = Some ''foo''"
    by (simp add: xdp_program__name_def mod_prog_def new_prog_def)
  have fits: "check_snprintf 100 (''_'' @ ''foo'') = 0" by (simp add: check_snprintf_def)
  have sec: "find_run_config_sec mod_btf (types mod_btf) = Some (Some ?sec)"
    by (simp add: parse_defs mod_btf_def btf_const_def btf_typedef_def ex_btf_defs btf_defs)
  have vars: "t_secinfos ?sec = [\<lparr>vsi_type = 11, vsi_offset = 0, vsi_size = 24\<rparr>]
                @ \<lparr>vsi_type = 10, vsi_offset = 24, vsi_size = 24\<rparr> # []"
    by (simp add: ex_btf_defs)
  have skip: "\<forall>v\<in>set [\<lparr>vsi_type = 11, vsi_offset = 0, vsi_size = 24\<rparr>].
      \<exists>var name. btf__type_by_id mod_btf (vsi_type v) = Some var \<and>
        btf__name_by_offset mod_btf (name_off var) = Some name \<and> strcmp name (''_'' @ ''foo'') \<noteq> 0"
    by (simp add: mod_btf_def ex_btf_defs btf_defs byte_def)
  have var: "btf__type_by_id mod_btf (vsi_type \<lparr>vsi_type = 10, vsi_offset = 24, vsi_size = 24\<rparr>)
               = Some (btf_var 17 9 1)"
    by (simp add: mod_btf_def btf_defs)
  have vname: "btf__name_by_offset mod_btf (name_off (btf_var 17 9 1)) = Some ''_foo''"
    "strcmp ''_foo'' (''_'' @ ''foo'') = 0"
    by (simp_all add: mod_btf_def ex_btf_defs btf_defs)
  have isvar: "btf_is_var (btf_var 17 9 1)" by (simp add: parse_defs ex_btf_defs btf_defs)
  have linkage: "t_linkage (btf_var 17 9 1) = BTF_VAR_GLOBAL_ALLOCATED \<or>
                 t_linkage (btf_var 17 9 1) = BTF_VAR_STATIC"
    by (simp add: ex_btf_defs btf_defs BTF_VAR_GLOBAL_ALLOCATED_def)
  have struct: "skip_mods_and_typedefs mod_btf (size_or_type (btf_var 17 9 1)) = Some ?def"
    "btf_is_struct ?def"
    by (simp_all add: parse_defs mod_btf_def btf_const_def btf_typedef_def ex_btf_defs btf_defs)
  have size: "size_or_type ?def \<le> vsi_size \<lparr>vsi_type = 10, vsi_offset = 24, vsi_size = 24\<rparr>"
    by (simp add: ex_btf_defs btf_defs)
  have mems: "t_members ?def = [m_priority 5] @ m_drop 7 # [m_bogus 3]"
    by (simp add: ex_btf_defs)
  have before: "parse_members mod_btf [m_priority 5] mod_prog = Some (0, mod_prog\<lparr>run_prio := 15\<rparr>)"
    by (simp add: parse_defs mod_prog_def mod_btf_def btf_const_def btf_typedef_def ex_btf_defs btf_defs)
  have mname: "btf__name_by_offset mod_btf (m_name_off (m_drop 7)) = Some ''XDP_DROP''"
    by (simp add: mod_btf_def ex_btf_defs btf_defs)
  have ty: "skip_mods_and_typedefs mod_btf (m_type (m_drop 7)) = Some (btf_ptr 6)" "btf_is_ptr (btf_ptr 6)"
    by (simp_all add: parse_defs mod_btf_def btf_const_def btf_typedef_def ex_btf_defs btf_defs)
  have arr: "btf__type_by_id mod_btf (size_or_type (btf_ptr 6)) = Some (btf_arr 1)"
    "btf_is_array (btf_arr 1)"
    by (simp_all add: parse_defs mod_btf_def ex_btf_defs btf_defs)
  have chain: "skip_mods_and_typedefs mod_btf (m_type (m_priority 5)) = Some (btf_ptr 2)"
    by (simp add: parse_defs mod_btf_def btf_const_def btf_typedef_def ex_btf_defs btf_defs)
  have res: "xdp_parse_run_config mod_prog
     = Some (- ENOTSUP, mod_prog\<lparr>run_prio := 15, chain_call_actions := 6\<rparr>)"
    by (rule mod_parse)
  have act: "get_xdp_action ''XDP_DROP'' = Some XDP_DROP"
    by (simp add: get_xdp_action_def xdp_action_names_def XDP_DROP_def byte_def)
  have later: "\<forall>m'\<in>set [m_bogus 3]. btf__name_by_offset mod_btf (m_name_off m') \<noteq> Some ''XDP_DROP''"
    by (simp add: mod_btf_def ex_btf_defs btf_defs)
  have n1: "nelems (t_array (btf_arr 1)) \<noteq> 0" by (simp add: ex_btf_defs btf_defs)
  note rem = parse_run_config_sets_fields[OF btf name fits sec vars skip var vname isvar linkage
      struct size mems before mname ty arr]
  from rem[THEN conjunct2, THEN conjunct2] res later act n1
  have "xdp_program__chain_call_enabled (mod_prog\<lparr>run_prio := 15, chain_call_actions := 6\<rparr>) XDP_DROP"
    by blast
  with res before chain act s4_parse show ?thesis by blast
qed

text \<open>
Claim C4 as the specification states it (every member named \<open>priority\<close> of the matching
  variable is stored) does not hold: in the struct \<open>{ bogus, priority }\<close> the member
  \<open>priority\<close> is a pointer to an array of 15 elements, the parse ends at \<open>bogus\<close>, and the
  handle keeps its priority 50.
\<close>

theorem parse_run_config_late_member_counterexample:
  "xdp_parse_run_config late_prog = Some (- ENOTSUP, late_prog) \<and>
   t_members (types late_btf ! 5) = [m_bogus 5, m_priority 3] \<and>
   btf__name_by_offset late_btf (m_name_off (m_priority 3)) = Some ''priority'' \<and>
   get_field_int late_btf (m_priority 3) = Some (Some 15) \<and>
   run_prio late_prog = 50"
  by (simp add: parse_defs late_prog_def late_btf_def ex_btf_defs btf_defs new_prog_def)

text \<open>
Claim C10. The loop over the section's variables handles the first variable whose name
  is \<open>"_" + name\<close> and returns its outcome, success or error: the result is that of
  \<open>parse_var\<close> on this variable, whatever follows it in the section.
\<close>

theorem parse_vars_first_match:
  assumes "\<forall>v\<in>set vs1. \<exists>var name. btf__type_by_id b (vsi_type v) = Some var \<and>
             btf__name_by_offset b (name_off var) = Some name \<and> strcmp name sn \<noteq> 0"
      and "btf__type_by_id b (vsi_type vi) = Some var"
      and "btf__name_by_offset b (name_off var) = Some name"
      and "strcmp name sn = 0"
  shows "parse_vars b sn (vs1 @ vi # vs2) p = parse_var b vi var p"
  using assms(2-4) by (simp add: parse_vars_skip[OF assms(1)])

theorem parse_vars_first_match_witness:
  "parse_vars dup_btf ''_foo''
     ([\<lparr>vsi_type = 8, vsi_offset = 0, vsi_size = 16\<rparr>] @ \<lparr>vsi_type = 9, vsi_offset = 16, vsi_size = 8\<rparr>
        # [\<lparr>vsi_type = 10, vsi_offset = 24, vsi_size = 16\<rparr>]) dup_prog
     = parse_var dup_btf \<lparr>vsi_type = 9, vsi_offset = 16, vsi_size = 8\<rparr> (btf_var 17 6 1) dup_prog \<and>
   xdp_parse_run_config dup_prog = Some (0, dup_prog\<lparr>run_prio := 15\<rparr>)"
proof -
  have h1: "\<forall>v\<in>set [\<lparr>vsi_type = 8, vsi_offset = 0, vsi_size = 16\<rparr>].
     \<exists>var name. btf__type_by_id dup_btf (vsi_type v) = Some var \<and>
       btf__name_by_offset dup_btf (name_off var) = Some name \<and> strcmp name ''_foo'' \<noteq> 0"
    by (simp add: dup_btf_def ex_btf_defs btf_defs byte_def)
  have h2: "btf__type_by_id dup_btf (vsi_type \<lparr>vsi_type = 9, vsi_offset = 16, vsi_size = 8\<rparr>) = Some (btf_var 17 6 1)"
    by (simp add: dup_btf_def btf_defs)
  have h3: "btf__name_by_offset dup_btf (name_off (btf_var 17 6 1)) = Some ''_foo''"
    by (simp add: dup_btf_def ex_btf_defs btf_defs)
  have h4: "strcmp ''_foo'' ''_foo'' = 0" by simp
  have "xdp_parse_run_config dup_prog = Some (0, dup_prog\<lparr>run_prio := 15\<rparr>)"
    by (simp add: parse_defs dup_prog_def dup_btf_def ex_btf_defs btf_defs)
  with parse_vars_first_match[OF h1 h2 h3 h4] show ?thesis by simp
qed

subsection \<open>Ordering\<close>

lemma cmp_by_tag_and_time_neg: "cmp_by_tag_and_time b a = - cmp_by_tag_and_time a b"
  by (auto simp: cmp_by_tag_and_time_def Let_def memcmp_neg[of "prog_tag a" "prog_tag b"])

lemma cmp_xdp_programs_antisym:
  "cmp_xdp_programs b a = map_option uminus (cmp_xdp_programs a b)"
proof (cases "prog_name a")
  case None
  then show ?thesis by (auto simp: cmp_xdp_programs_def split: option.splits)
next
  case (Some na)
  note na = this
  show ?thesis
  proof (cases "prog_name b")
    case None
    then show ?thesis by (auto simp: cmp_xdp_programs_def split: option.splits)
  next
    case (Some nb)
    with na show ?thesis
      by (auto simp: cmp_xdp_programs_def Let_def cmp_neg[of na nb]
            cmp_by_tag_and_time_neg[of a b] split: option.splits)
  qed
qed


subsection \<open>Evaluating the environment\<close>

lemmas world_defs = with_fault_def next_fault_def log_sys_def malloc_def free_def strdup_def
  free_str_def fresh_addr_def fresh_fd_def fd_install_def sys_close_def fs_remove_def fs_create_def
  sys_statfs_def sys_mkdir_def sys_open_dir_def sys_flock_def sys_unlink_def sys_rmdir_def
  opendir_def bpf_prog_get_fd_by_id_def bpf_obj_get_info_by_fd_def btf__get_from_id_def
  btf__free_def bpf_obj_pin_def bpf_raw_tracepoint_open_def rv_def

lemmas lib_defs = find_bpf_file_def fmt_d_def as_int_def bpf_is_valid_mntpt_def
  bpf_find_mntpt_single_def find_bpffs_def get_bpffs_dir_def xdp_lock_acquire_def
  xdp_lock_release_def check_snprintf_def BPF_DIR_MNT_def BPF_FS_MAGIC_def PATH_MAX_def
  child_name_def dir_entries_def parent_dir_def

lemma dec_numeral [simp]:
  "dec (numeral k) = (if numeral k < (10::nat) then [''0123456789'' ! numeral k]
     else dec (numeral k div 10) @ [''0123456789'' ! (numeral k mod 10)])"
  by (rule dec.simps)

lemma dec_0 [simp]: "dec 0 = ''0''"
  by (simp add: dec.simps)

lemma dec_1 [simp]: "dec (Suc 0) = ''1''"
  by (simp add: dec.simps)

subsection \<open>What the primitives leave unchanged\<close>

lemma sys_close_frame [simp]:
  "objs (snd (sys_close fd w)) = objs w"
  "heap (snd (sys_close fd w)) = heap w"
  "fs (snd (sys_close fd w)) = fs w"
  "kprogs (snd (sys_close fd w)) = kprogs w"
  "bpffs_dir_cache (snd (sys_close fd w)) = bpffs_dir_cache w"
  by (simp_all add: sys_close_def with_fault_def next_fault_def log_sys_def split: list.split)

lemma sys_close_fds_subset: "set (fds (snd (sys_close fd w))) \<subseteq> set (fds w)"
  by (auto simp: sys_close_def with_fault_def next_fault_def log_sys_def split: list.split)

lemma sys_close_fds_keeps:
  "e \<in> set (fds w) \<Longrightarrow> fst e \<noteq> fd \<Longrightarrow> e \<in> set (fds (snd (sys_close fd w)))"
  by (auto simp: sys_close_def with_fault_def next_fault_def log_sys_def split: list.split)

lemma free_str_Some:
  assumes "free_str p w = Some w'"
  shows "objs w' = objs w" "fds w' = fds w"
    "heap w' = (case p of None \<Rightarrow> heap w | Some s \<Rightarrow> remove1 (A_STR s) (heap w))"
  using assms by (auto simp: free_str_def free_def log_sys_def split: option.splits if_splits)

lemma close_fds_frame [simp]:
  "objs (close_fds l w) = objs w" "heap (close_fds l w) = heap w"
  by (induction l arbitrary: w) simp_all

lemma close_fds_fds_subset: "set (fds (close_fds l w)) \<subseteq> set (fds w)"
proof (induction l arbitrary: w)
  case Nil
  then show ?case by simp
next
  case (Cons fd l)
  have "set (fds (close_fds l (snd (sys_close fd w)))) \<subseteq> set (fds (snd (sys_close fd w)))"
    by (rule Cons.IH)
  with sys_close_fds_subset[of fd w] show ?case by auto
qed

lemma bpf_object__close_Some:
  assumes "bpf_object__close a w = Some w'"
  shows "objs w' = filter (\<lambda>e. fst e \<noteq> a) (objs w)" "heap w' = heap w"
    "set (fds w') \<subseteq> set (fds w)"
proof -
  obtain obj where "map_of (objs w) a = Some obj"
    using assms by (cases "map_of (objs w) a") (simp_all add: bpf_object__close_def)
  with assms have w': "w' = (close_fds (filter (\<lambda>fd. fd \<ge> 0) (map op_fd (o_progs obj)))
        (log_sys (SYS_bpf_object_close a) w))\<lparr>objs := filter (\<lambda>e. fst e \<noteq> a) (objs w)\<rparr>"
    by (simp add: bpf_object__close_def)
  show "objs w' = filter (\<lambda>e. fst e \<noteq> a) (objs w)" by (simp add: w')
  show "heap w' = heap w" by (simp add: w' log_sys_def)
  have "set (fds w') \<subseteq> set (fds (log_sys (SYS_bpf_object_close a) w))"
    using close_fds_fds_subset by (simp add: w')
  then show "set (fds w') \<subseteq> set (fds w)" by (simp add: log_sys_def)
qed

lemma btf__free_Some:
  assumes "btf__free b w = Some w'"
  shows "objs w' = objs w" "fds w' = fds w"
    "heap w' = (case b of None \<Rightarrow> heap w | Some x \<Rightarrow> remove1 (A_BTF (btf_addr x)) (heap w))"
  using assms by (auto simp: btf__free_def log_sys_def split: option.splits if_splits)

subsection \<open>Handle factories\<close>

text \<open>
  Claim C9. Freeing a handle leaves the set of live objects as it is when the handle is
  marked as built on an external object, and frees no type information then: the heap
  loses the handle's two strings and nothing else, and every descriptor other than the
  handle's two stays open. The object is closed with the handle exactly when the handle is
  not marked external and holds an object.
\<close>

theorem xdp_program__free_ownership:
  assumes "xdp_program__free p w = Some w'"
  shows "objs w' = (if from_external_obj p then objs w
                    else case bpf_obj p of None \<Rightarrow> objs w
                         | Some a \<Rightarrow> filter (\<lambda>e. fst e \<noteq> a) (objs w)) \<and>
         (from_external_obj p \<longrightarrow>
            heap w' = (case prog_name p of None \<Rightarrow> id | Some s \<Rightarrow> remove1 (A_STR s))
                        ((case link_pin_path p of None \<Rightarrow> id | Some s \<Rightarrow> remove1 (A_STR s)) (heap w))) \<and>
         set (fds w') \<subseteq> set (fds w) \<and>
         (\<forall>e\<in>set (fds w). from_external_obj p \<longrightarrow> fst e \<noteq> link_fd p \<longrightarrow> fst e \<noteq> prog_fd p \<longrightarrow>
             e \<in> set (fds w'))"
proof -
  define w1 where "w1 = (if link_fd p \<ge> 0 then snd (sys_close (link_fd p) w) else w)"
  define w2 where "w2 = (if prog_fd p \<ge> 0 then snd (sys_close (prog_fd p) w1) else w1)"
  have unfolded: "xdp_program__free p w =
     (case free_str (link_pin_path p) w2 of
           None \<Rightarrow> None
         | Some w3 \<Rightarrow>
             (case free_str (prog_name p) w3 of
                None \<Rightarrow> None
              | Some w4 \<Rightarrow>
                  if \<not> from_external_obj p then
                    (case bpf_obj p of
                       Some obj \<Rightarrow> bpf_object__close obj w4
                     | None \<Rightarrow>
                         (case btf p of
                            Some b \<Rightarrow> btf__free (Some b) w4
                          | None \<Rightarrow> Some w4))
                  else Some w4))"
    by (simp add: xdp_program__free_def w1_def w2_def Let_def)
  obtain w3 where f1: "free_str (link_pin_path p) w2 = Some w3"
    using assms unfolding unfolded by (cases "free_str (link_pin_path p) w2") simp_all
  obtain w4 where f2: "free_str (prog_name p) w3 = Some w4"
    using assms f1 by (cases "free_str (prog_name p) w3") (simp_all add: unfolded)
  have rest: "(if \<not> from_external_obj p then
                    (case bpf_obj p of
                       Some obj \<Rightarrow> bpf_object__close obj w4
                     | None \<Rightarrow>
                         (case btf p of
                            Some b \<Rightarrow> btf__free (Some b) w4
                          | None \<Rightarrow> Some w4))
                  else Some w4) = Some w'"
    using assms f1 f2 by (simp add: unfolded)
  have o2: "objs w2 = objs w" and h2: "heap w2 = heap w"
    by (simp_all add: w1_def w2_def)
  have sub1: "set (fds w1) \<subseteq> set (fds w)"
    using sys_close_fds_subset[of "link_fd p" w] by (simp add: w1_def)
  have sub2: "set (fds w2) \<subseteq> set (fds w)"
    using sys_close_fds_subset[of "prog_fd p" w1] sub1 by (auto simp: w2_def)
  have keep: "e \<in> set (fds w2)" if "e \<in> set (fds w)" "fst e \<noteq> link_fd p" "fst e \<noteq> prog_fd p" for e
  proof -
    have "e \<in> set (fds w1)" using that by (simp add: w1_def sys_close_fds_keeps)
    then show ?thesis using that by (simp add: w2_def sys_close_fds_keeps)
  qed
  note s1 = free_str_Some[OF f1]
  note s2 = free_str_Some[OF f2]
  have o4: "objs w4 = objs w" using o2 s1 s2 by simp
  have h4: "heap w4 = (case prog_name p of None \<Rightarrow> id | Some s \<Rightarrow> remove1 (A_STR s))
                        ((case link_pin_path p of None \<Rightarrow> id | Some s \<Rightarrow> remove1 (A_STR s)) (heap w))"
    using h2 s1(3) s2(3) by (simp split: option.splits)
  have d4: "fds w4 = fds w2" using s1 s2 by simp
  show ?thesis
  proof (cases "from_external_obj p")
    case True
    with rest have "w' = w4" by simp
    with True o4 h4 d4 sub2 keep show ?thesis by auto
  next
    case False
    note ext = this
    show ?thesis
    proof (cases "bpf_obj p")
      case (Some a)
      with ext rest have "bpf_object__close a w4 = Some w'" by simp
      from bpf_object__close_Some[OF this] Some ext o4 d4 sub2 show ?thesis by auto
    next
      case None
      note nobj = this
      show ?thesis
      proof (cases "btf p")
        case None
        with nobj ext rest have "w' = w4" by simp
        with nobj ext o4 d4 sub2 show ?thesis by auto
      next
        case (Some b)
        with nobj ext rest have "btf__free (Some b) w4 = Some w'" by simp
        from btf__free_Some[OF this] nobj ext o4 d4 sub2 show ?thesis by auto
      qed
    qed
  qed
qed


theorem xdp_program__free_ownership_witness:
  "\<exists>w'. xdp_program__free ext_prog ext_world = Some w' \<and>
     objs w' = objs ext_world \<and> heap w' = [A_HANDLE, A_BTF 4] \<and> fds w' = [(9, FD_PROG 8)] \<and>
     (\<exists>w''. xdp_program__free (ext_prog\<lparr>from_external_obj := False\<rparr>) ext_world = Some w'' \<and> objs w'' = [])"
proof -
  have h1: "xdp_program__free ext_prog ext_world \<noteq> None"
    by (simp add: xdp_program__free_def ext_prog_def ext_world_def empty_world_def new_prog_def
          world_defs)
  then obtain w' where w': "xdp_program__free ext_prog ext_world = Some w'" by blast
  have h2: "xdp_program__free (ext_prog\<lparr>from_external_obj := False\<rparr>) ext_world \<noteq> None"
    by (simp add: xdp_program__free_def ext_prog_def ext_world_def empty_world_def new_prog_def
          world_defs bpf_object__close_def)
  then obtain w'' where w'': "xdp_program__free (ext_prog\<lparr>from_external_obj := False\<rparr>) ext_world = Some w''"
    by blast
  have ext: "from_external_obj ext_prog" "prog_name ext_prog = Some ''foo''"
      "link_pin_path ext_prog = None" "link_fd ext_prog = 6" "prog_fd ext_prog = 5"
    by (simp_all add: ext_prog_def new_prog_def)
  have own: "\<not> from_external_obj (ext_prog\<lparr>from_external_obj := False\<rparr>)"
      "bpf_obj (ext_prog\<lparr>from_external_obj := False\<rparr>) = Some 1"
    by (simp_all add: ext_prog_def new_prog_def)
  have wd: "objs ext_world = [(1, \<lparr>o_progs = [], o_btf = Some s4_btf, o_rodata = None, o_loaded = True\<rparr>)]"
      "heap ext_world = [A_STR ''foo'', A_HANDLE, A_BTF 4]"
      "fds ext_world = [(5, FD_PROG 7), (6, FD_LINK 7), (9, FD_PROG 8)]"
    by (simp_all add: ext_world_def empty_world_def)
  from xdp_program__free_ownership[OF w'] ext wd
  have a: "objs w' = objs ext_world" "heap w' = [A_HANDLE, A_BTF 4]" by simp_all
  have b: "fds w' = [(9, FD_PROG 8)]"
    using w' by (auto simp: xdp_program__free_def ext_prog_def ext_world_def empty_world_def new_prog_def
          world_defs)
  from xdp_program__free_ownership[OF w''] own wd
  have c: "objs w'' = []" by simp
  from w' w'' a b c show ?thesis by blast
qed

text \<open>
  Claim C2 at the kernel-id factory. Program 7 resolves to descriptor 3; its name and its
  type information are fetched; the metadata parser rejects the member \<open>bogus\<close>. The
  factory returns the error after \<open>free(xdp_prog)\<close>: descriptor 3 stays open, and the name
  and the type information stay allocated. Before the call no descriptor was open and
  nothing was allocated.
\<close>

theorem from_id_leaks:
  "map_option (\<lambda>(r, w'). (r, fds w', heap w')) (xdp_program__from_id 7 leak_world)
     = Some (Inl (- ENOTSUP), [(3, FD_PROG 7)], [A_BTF 1, A_STR ''foo'']) \<and>
   fds leak_world = [] \<and> heap leak_world = []"
  by (simp add: xdp_program__from_id_def xdp_program__new_def xdp_program__fill_from_fd_def
       leak_world_def empty_world_def world_defs parse_defs bogus_btf_def ex_btf_defs btf_defs
       BPF_TAG_SIZE_def errno_defs)

subsection \<open>Pin store\<close>

text \<open>
  Claim C5 at two handles, the second without a link descriptor. The call fails with
  \<open>- EINVAL\<close>; its unwind calls \<open>unlink\<close> on the directory path it stored in the first
  handle, so \<open>link-prog0\<close>, pinned in this call, and the directory \<open>dispatch-7\<close>, made in
  this call, are still there.
\<close>

theorem pin_unwind_leaves_link:
  "map_option (\<lambda>(e, ps, w'). (e, map link_pin_path ps, fs w', heap w'))
      (pin_multiprog 3 [linked_prog, unlinked_prog] pin_world)
     = Some (- EINVAL, [None, None],
         [(''/sys/fs/bpf'', I_DIR), (''/sys/fs/bpf/xdp'', I_DIR),
          (''/sys/fs/bpf/xdp/dispatch-7'', I_DIR),
          (''/sys/fs/bpf/xdp/dispatch-7/link-prog0'', I_PIN (FD_LINK 8))], [])"
  by (simp add: pin_multiprog_def pin_world_def empty_world_def linked_prog_def unlinked_prog_def
        new_prog_def world_defs lib_defs errno_defs)

subsection \<open>Attacher\<close>

text \<open>
  Claim C8. With no handle the attacher returns \<open>- EINVAL\<close> and the state, the trace of
  calls included, is the state before the call.
\<close>

theorem xdp_attach_programs_empty:
  "xdp_attach_programs [] ifindex force mode w = Some (- EINVAL, [], w)"
  by (simp add: xdp_attach_programs_def)

lemma bpf_set_link_xdp_fd_trace:
  "trace (snd (bpf_set_link_xdp_fd i fd fl w)) = trace w @ [SYS_bpf_set_link_xdp_fd i fd fl]"
  by (simp add: bpf_set_link_xdp_fd_def with_fault_def next_fault_def log_sys_def Let_def
        split: list.split option.split fdesc.split prod.split)

lemma mode_flags_no_noexist: "mode_flags mode AND XDP_FLAGS_UPDATE_IF_NOEXIST = 0"
  by (cases mode) (simp_all add: mode_flags_def XDP_FLAGS_UPDATE_IF_NOEXIST_def
        XDP_FLAGS_SKB_MODE_def XDP_FLAGS_DRV_MODE_def XDP_FLAGS_HW_MODE_def)

lemma mode_flags_noexist: "(mode_flags mode OR XDP_FLAGS_UPDATE_IF_NOEXIST) AND XDP_FLAGS_UPDATE_IF_NOEXIST \<noteq> 0"
  by (cases mode) (simp_all add: mode_flags_def XDP_FLAGS_UPDATE_IF_NOEXIST_def
        XDP_FLAGS_SKB_MODE_def XDP_FLAGS_DRV_MODE_def XDP_FLAGS_HW_MODE_def)

lemma mode_flags_strip: "mode_flags mode AND NOT XDP_FLAGS_MODES = 0"
  by (cases mode) (simp_all add: mode_flags_def XDP_FLAGS_MODES_def
        XDP_FLAGS_SKB_MODE_def XDP_FLAGS_DRV_MODE_def XDP_FLAGS_HW_MODE_def)

lemma attach_fd_noforce:
  "attach_fd fd ifindex False mode w =
     (case bpf_set_link_xdp_fd ifindex fd (mode_flags mode OR XDP_FLAGS_UPDATE_IF_NOEXIST) w of
        (e, w1) \<Rightarrow> (if e < 0 then e else fd, w1))"
proof -
  obtain e w1 where c: "bpf_set_link_xdp_fd ifindex fd (mode_flags mode OR XDP_FLAGS_UPDATE_IF_NOEXIST) w = (e, w1)"
    by (cases "bpf_set_link_xdp_fd ifindex fd (mode_flags mode OR XDP_FLAGS_UPDATE_IF_NOEXIST) w")
  show ?thesis
    unfolding attach_fd_def Let_def
    apply (simp only: if_True if_False simp_thms c prod.case mode_flags_noexist)
    by (cases "e < 0") simp_all
qed

lemma attach_fd_force:
  assumes h: "bpf_set_link_xdp_fd ifindex fd (mode_flags mode) w = (- EEXIST, w1)"
    and d: "bpf_set_link_xdp_fd ifindex (- 1)
              (if mode = XDP_MODE_SKB then XDP_FLAGS_DRV_MODE else XDP_FLAGS_SKB_MODE) w1 = (e2, w2)"
    and r: "bpf_set_link_xdp_fd ifindex fd (mode_flags mode) w2 = (e3, w3)"
  shows "attach_fd fd ifindex True mode w =
           (if e2 = 0 then (if e3 < 0 then e3 else fd, w3) else (if e2 < 0 then e2 else fd, w2))"
proof -
  have opp: "(mode_flags mode AND NOT XDP_FLAGS_MODES)
               OR (if mode = XDP_MODE_SKB then XDP_FLAGS_DRV_MODE else XDP_FLAGS_SKB_MODE)
             = (if mode = XDP_MODE_SKB then XDP_FLAGS_DRV_MODE else XDP_FLAGS_SKB_MODE)"
    by (simp add: mode_flags_strip)
  show ?thesis
    unfolding attach_fd_def Let_def
    apply (simp only: if_True if_False simp_thms h prod.case mode_flags_no_noexist opp d)
    by (cases "e2 = 0"; cases "e2 < 0"; cases "e3 < 0") (simp_all add: r)
qed

lemmas flag_defs = mode_flags_def XDP_FLAGS_UPDATE_IF_NOEXIST_def XDP_FLAGS_SKB_MODE_def
  XDP_FLAGS_DRV_MODE_def XDP_FLAGS_HW_MODE_def XDP_FLAGS_MODES_def

lemma xdp_attach_programs_single:
  "prog_fd p \<ge> 0 \<Longrightarrow>
   xdp_attach_programs [p] ifindex force mode w =
     (case attach_fd (prog_fd p) ifindex force mode w of (r, w3) \<Rightarrow> Some (r, [p], w3))"
  by (simp add: xdp_attach_programs_def)

text \<open>
  Claim C6. When the attach under the original flags fails with \<open>EEXIST\<close> and force is set
  (the only-if-unset flag is not among the flags), the next call of the primitive has the
  descriptor \<open>-1\<close> and the flag of the opposite mode alone (native for skb, skb
  otherwise); when that call returns 0 the third call repeats the first and decides the
  result, otherwise its error is returned and there is no third call. Without force the
  flags hold the only-if-unset flag and the primitive is called once.
\<close>

theorem attach_fd_already_exists:
  assumes h: "bpf_set_link_xdp_fd ifindex fd (mode_flags mode) w = (- EEXIST, w1)"
    and d: "bpf_set_link_xdp_fd ifindex (- 1)
              (if mode = XDP_MODE_SKB then XDP_FLAGS_DRV_MODE else XDP_FLAGS_SKB_MODE) w1 = (e2, w2)"
    and r: "bpf_set_link_xdp_fd ifindex fd (mode_flags mode) w2 = (e3, w3)"
  shows "attach_fd fd ifindex True mode w =
           (if e2 = 0 then (if e3 < 0 then e3 else fd, w3) else (if e2 < 0 then e2 else fd, w2)) \<and>
         trace (snd (attach_fd fd ifindex True mode w)) =
           trace w @ [SYS_bpf_set_link_xdp_fd ifindex fd (mode_flags mode),
                      SYS_bpf_set_link_xdp_fd ifindex (- 1)
                        (if mode = XDP_MODE_SKB then XDP_FLAGS_DRV_MODE else XDP_FLAGS_SKB_MODE)]
             @ (if e2 = 0 then [SYS_bpf_set_link_xdp_fd ifindex fd (mode_flags mode)] else []) \<and>
         attach_fd fd ifindex False mode w =
           (case bpf_set_link_xdp_fd ifindex fd (mode_flags mode OR XDP_FLAGS_UPDATE_IF_NOEXIST) w of
              (e, w') \<Rightarrow> (if e < 0 then e else fd, w')) \<and>
         trace (snd (attach_fd fd ifindex False mode w)) =
           trace w @ [SYS_bpf_set_link_xdp_fd ifindex fd (mode_flags mode OR XDP_FLAGS_UPDATE_IF_NOEXIST)]"
proof -
  let ?opp = "(if mode = XDP_MODE_SKB then XDP_FLAGS_DRV_MODE else XDP_FLAGS_SKB_MODE)"
  have t1: "trace w1 = trace w @ [SYS_bpf_set_link_xdp_fd ifindex fd (mode_flags mode)]"
    using bpf_set_link_xdp_fd_trace[of ifindex fd "mode_flags mode" w] by (simp add: h)
  have t2: "trace w2 = trace w1 @ [SYS_bpf_set_link_xdp_fd ifindex (- 1) ?opp]"
    using bpf_set_link_xdp_fd_trace[of ifindex "- 1" ?opp w1] by (simp only: d snd_conv)
  have t3: "trace w3 = trace w2 @ [SYS_bpf_set_link_xdp_fd ifindex fd (mode_flags mode)]"
    using bpf_set_link_xdp_fd_trace[of ifindex fd "mode_flags mode" w2] by (simp add: r)
  note f = attach_fd_force[OF h d r]
  have ft: "trace (snd (attach_fd fd ifindex True mode w)) =
           trace w @ [SYS_bpf_set_link_xdp_fd ifindex fd (mode_flags mode),
                      SYS_bpf_set_link_xdp_fd ifindex (- 1) ?opp]
             @ (if e2 = 0 then [SYS_bpf_set_link_xdp_fd ifindex fd (mode_flags mode)] else [])"
  proof (cases "e2 = 0")
    case True
    then show ?thesis by (simp add: f t3 t2 t1)
  next
    case False
    then show ?thesis by (simp add: f t2 t1)
  qed
  note n = attach_fd_noforce[of fd ifindex mode w]
  obtain e w' where c: "bpf_set_link_xdp_fd ifindex fd (mode_flags mode OR XDP_FLAGS_UPDATE_IF_NOEXIST) w = (e, w')"
    by (cases "bpf_set_link_xdp_fd ifindex fd (mode_flags mode OR XDP_FLAGS_UPDATE_IF_NOEXIST) w")
  have nt: "trace (snd (attach_fd fd ifindex False mode w)) =
           trace w @ [SYS_bpf_set_link_xdp_fd ifindex fd (mode_flags mode OR XDP_FLAGS_UPDATE_IF_NOEXIST)]"
    using bpf_set_link_xdp_fd_trace[of ifindex fd "mode_flags mode OR XDP_FLAGS_UPDATE_IF_NOEXIST" w]
    by (simp only: n c prod.case snd_conv)
  show ?thesis
    apply (intro conjI)
       apply (rule f)
      apply (rule ft)
     apply (rule n)
    apply (rule nt)
    done
qed

theorem attach_fd_already_exists_witness:
  "bpf_set_link_xdp_fd 42 5 (mode_flags XDP_MODE_SKB) s3_world
     = (- EEXIST, s3_world\<lparr>trace := [SYS_bpf_set_link_xdp_fd 42 5 2]\<rparr>) \<and>
   xdp_attach_programs [s3_prog] 42 True XDP_MODE_SKB s3_world
     = Some (5, [s3_prog],
         s3_world\<lparr>trace := [SYS_bpf_set_link_xdp_fd 42 5 2, SYS_bpf_set_link_xdp_fd 42 (- 1) 4,
                               SYS_bpf_set_link_xdp_fd 42 5 2],
                    xdp_attached := [(42, 2, 7)]\<rparr>) \<and>
   fst (attach_fd 5 42 False XDP_MODE_SKB s3_world) = - EEXIST \<and>
   trace (snd (attach_fd 5 42 False XDP_MODE_SKB s3_world)) = [SYS_bpf_set_link_xdp_fd 42 5 3]"
proof -
  let ?w1 = "s3_world\<lparr>trace := [SYS_bpf_set_link_xdp_fd 42 5 2]\<rparr>"
  let ?w2 = "s3_world\<lparr>trace := [SYS_bpf_set_link_xdp_fd 42 5 2, SYS_bpf_set_link_xdp_fd 42 (- 1) 4],
                       xdp_attached := []\<rparr>"
  let ?w3 = "s3_world\<lparr>trace := [SYS_bpf_set_link_xdp_fd 42 5 2, SYS_bpf_set_link_xdp_fd 42 (- 1) 4,
                               SYS_bpf_set_link_xdp_fd 42 5 2],
                    xdp_attached := [(42, 2, 7)]\<rparr>"
  have h1: "bpf_set_link_xdp_fd 42 5 (mode_flags XDP_MODE_SKB) s3_world = (- EEXIST, ?w1)"
    by (simp add: bpf_set_link_xdp_fd_def s3_world_def empty_world_def world_defs flag_defs)
  have h2: "bpf_set_link_xdp_fd 42 (- 1)
      (if XDP_MODE_SKB = XDP_MODE_SKB then XDP_FLAGS_DRV_MODE else XDP_FLAGS_SKB_MODE) ?w1 = (0, ?w2)"
    by (simp add: bpf_set_link_xdp_fd_def s3_world_def empty_world_def world_defs flag_defs)
  have h3: "bpf_set_link_xdp_fd 42 5 (mode_flags XDP_MODE_SKB) ?w2 = (0, ?w3)"
    by (simp add: bpf_set_link_xdp_fd_def s3_world_def empty_world_def world_defs flag_defs)
  have h4: "bpf_set_link_xdp_fd 42 5 (mode_flags XDP_MODE_SKB OR XDP_FLAGS_UPDATE_IF_NOEXIST) s3_world
      = (- EEXIST, s3_world\<lparr>trace := [SYS_bpf_set_link_xdp_fd 42 5 3]\<rparr>)"
    by (simp add: bpf_set_link_xdp_fd_def s3_world_def empty_world_def world_defs flag_defs)
  have p: "prog_fd s3_prog = 5" by (simp add: s3_prog_def new_prog_def)
  have t: "trace s3_world = []" by (simp add: s3_world_def empty_world_def)
  have m: "mode_flags XDP_MODE_SKB OR XDP_FLAGS_UPDATE_IF_NOEXIST = 3"
    by (simp add: flag_defs)
  note rem = attach_fd_already_exists[OF h1 h2 h3]
  have a: "attach_fd 5 42 True XDP_MODE_SKB s3_world = (5, ?w3)"
    using rem[THEN conjunct1] by simp
  have b: "xdp_attach_programs [s3_prog] 42 True XDP_MODE_SKB s3_world = Some (5, [s3_prog], ?w3)"
    using xdp_attach_programs_single[of s3_prog 42 True XDP_MODE_SKB s3_world] by (simp add: p a)
  have c: "fst (attach_fd 5 42 False XDP_MODE_SKB s3_world) = - EEXIST"
    using rem[THEN conjunct2, THEN conjunct2, THEN conjunct1] h4 by (simp add: m EEXIST_def)
  have d: "trace (snd (attach_fd 5 42 False XDP_MODE_SKB s3_world)) = [SYS_bpf_set_link_xdp_fd 42 5 3]"
    using rem[THEN conjunct2, THEN conjunct2, THEN conjunct2] by (simp add: t m)
  from h1 b c d show ?thesis by simp
qed

text \<open>
  Claim C6 as the specification states it (after \<open>EEXIST\<close> under force the attacher detaches
  and then retries) does not hold when the detach fails: here the second call of the
  primitive fails with \<open>EPERM\<close>; the attacher returns \<open>- EPERM\<close> after two calls, without
  a retry, and the program of the other mode stays attached.
\<close>

theorem attach_fd_detach_fails_counterexample:
  "xdp_attach_programs [s3_prog] 42 True XDP_MODE_SKB (s3_world\<lparr>faults := [0, EPERM]\<rparr>)
     = Some (- EPERM, [s3_prog],
         s3_world\<lparr>trace := [SYS_bpf_set_link_xdp_fd 42 5 2, SYS_bpf_set_link_xdp_fd 42 (- 1) 4]\<rparr>) \<and>
   xdp_attached s3_world = [(42, XDP_FLAGS_DRV_MODE, 9)]"
  by (simp add: xdp_attach_programs_def attach_fd_def bpf_set_link_xdp_fd_def s3_world_def
        s3_prog_def new_prog_def empty_world_def world_defs flag_defs errno_defs)

subsection \<open>The pin store without faults\<close>

lemma with_fault_nofault: "faults w = [] \<Longrightarrow> with_fault s fail f w = f (log_sys s w)"
  by (simp add: with_fault_def next_fault_def log_sys_def)

lemma log_sys_fields [simp]:
  "fs (log_sys s w) = fs w" "fds (log_sys s w) = fds w" "kprogs (log_sys s w) = kprogs w"
  "faults (log_sys s w) = faults w" "bpffs_dir_cache (log_sys s w) = bpffs_dir_cache w"
  "heap (log_sys s w) = heap w" "objs (log_sys s w) = objs w"
  "trace (log_sys s w) = trace w @ [s]"
  by (simp_all add: log_sys_def)

lemma map_of_filter_key:
  "map_of (filter (\<lambda>e. fst e \<noteq> p) t) q = (if q = p then None else map_of t q)"
  by (induction t) auto

lemma fold_max_ge: "(a::int) \<le> fold (\<lambda>p m. max (fst p + 1) m) (t :: (int \<times> fdesc) list) a"
proof (induction t arbitrary: a)
  case Nil
  then show ?case by simp
next
  case (Cons x t)
  have "a \<le> max (fst x + 1) a" by simp
  also have "\<dots> \<le> fold (\<lambda>p m. max (fst p + 1) m) t (max (fst x + 1) a)" by (rule Cons.IH)
  finally show ?case by simp
qed

lemma fresh_fd_above:
  "p \<in> set (t :: (int \<times> fdesc) list) \<Longrightarrow> fst p < fold (\<lambda>p m. max (fst p + 1) m) t a"
proof (induction t arbitrary: a)
  case Nil
  then show ?case by simp
next
  case (Cons x t)
  from Cons show ?case
  proof (cases "p = x")
    case True
    have "fst x < max (fst x + 1) a" by simp
    also have "\<dots> \<le> fold (\<lambda>p m. max (fst p + 1) m) t (max (fst x + 1) a)" by (rule fold_max_ge)
    finally show ?thesis using True by simp
  next
    case False
    with Cons.prems have "p \<in> set t" by simp
    from Cons.IH[OF this] show ?thesis by simp
  qed
qed


lemma fresh_fd_not_open: "map_of t fd = Some d \<Longrightarrow> fresh_fd t \<noteq> fd"
proof
  assume a: "map_of t fd = Some d" and b: "fresh_fd t = fd"
  from a have "(fd, d) \<in> set t" by (rule map_of_SomeD)
  from fresh_fd_above[OF this, of 3] b show False by (simp add: fresh_fd_def)
qed

lemma fs_remove_fields [simp]:
  "fds (fs_remove p w) = fds w" "kprogs (fs_remove p w) = kprogs w"
  "faults (fs_remove p w) = faults w" "bpffs_dir_cache (fs_remove p w) = bpffs_dir_cache w"
  "map_of (fs (fs_remove p w)) q = (if q = p then None else map_of (fs w) q)"
  "trace (fs_remove p w) = trace w"
  by (simp_all add: fs_remove_def map_of_filter_key)






lemma xdp_lock_release_nominal:
  assumes "faults w = []"
  shows "faults (snd (xdp_lock_release fd w)) = []"
    "fs (snd (xdp_lock_release fd w)) = fs w"
    "kprogs (snd (xdp_lock_release fd w)) = kprogs w"
    "bpffs_dir_cache (snd (xdp_lock_release fd w)) = bpffs_dir_cache w"
    "map_of (fds (snd (xdp_lock_release fd w))) q = (if q = fd then None else map_of (fds w) q)"
  using assms
  by (auto simp: xdp_lock_release_def sys_flock_def sys_close_def with_fault_nofault
        map_of_filter_key)


lemma dispatch_path_neq: "dir @ ''/dispatch-'' @ s \<noteq> dir"
  by simp



lemma fs_create_frame:
  assumes "fs_create p i w = (e, w')"
  shows "faults w' = faults w" "fds w' = fds w" "kprogs w' = kprogs w"
    "bpffs_dir_cache w' = bpffs_dir_cache w"
    "map_of (fs w) q = Some v \<Longrightarrow> map_of (fs w') q = Some v"
  using assms by (auto simp: fs_create_def map_add_Some_iff split: if_splits)

lemma sys_mkdir_frame:
  assumes "faults w = []" "sys_mkdir p w = (e, w')"
  shows "faults w' = []" "fds w' = fds w" "kprogs w' = kprogs w"
    "bpffs_dir_cache w' = bpffs_dir_cache w"
    "map_of (fs w) q = Some v \<Longrightarrow> map_of (fs w') q = Some v"
  using assms fs_create_frame[of p I_DIR "log_sys (SYS_mkdir p) w" e w']
  by (simp_all add: sys_mkdir_def with_fault_nofault)

lemma bpf_obj_pin_frame:
  assumes "faults w = []" "bpf_obj_pin fd p w = (e, w')"
  shows "faults w' = []" "fds w' = fds w" "kprogs w' = kprogs w"
    "bpffs_dir_cache w' = bpffs_dir_cache w"
    "map_of (fs w) q = Some v \<Longrightarrow> map_of (fs w') q = Some v"
proof -
  have "faults w' = [] \<and> fds w' = fds w \<and> kprogs w' = kprogs w \<and>
    bpffs_dir_cache w' = bpffs_dir_cache w \<and> (map_of (fs w) q = Some v \<longrightarrow> map_of (fs w') q = Some v)"
  proof (cases "map_of (fds w) fd")
    case None
    with assms show ?thesis by (auto simp: bpf_obj_pin_def with_fault_nofault)
  next
    case (Some d)
    show ?thesis
    proof (cases d)
      case (FD_DIR x)
      with Some assms show ?thesis by (auto simp: bpf_obj_pin_def with_fault_nofault)
    next
      case (FD_PROG x)
      with Some assms have "fs_create p (I_PIN d) (log_sys (SYS_bpf_obj_pin fd p) w) = (e, w')"
        by (simp add: bpf_obj_pin_def with_fault_nofault)
      from fs_create_frame[OF this] assms(1) show ?thesis by simp
    next
      case (FD_LINK x)
      with Some assms have "fs_create p (I_PIN d) (log_sys (SYS_bpf_obj_pin fd p) w) = (e, w')"
        by (simp add: bpf_obj_pin_def with_fault_nofault)
      from fs_create_frame[OF this] assms(1) show ?thesis by simp
    qed
  qed
  then show "faults w' = []" "fds w' = fds w" "kprogs w' = kprogs w"
    "bpffs_dir_cache w' = bpffs_dir_cache w"
    "map_of (fs w) q = Some v \<Longrightarrow> map_of (fs w') q = Some v"
    by simp_all
qed

lemma strdup_nominal:
  "faults w = [] \<Longrightarrow> strdup s w = (Some s, (log_sys (SYS_malloc (A_STR s)) w)\<lparr>heap := A_STR s # heap w\<rparr>)"
  by (simp add: strdup_def malloc_def with_fault_nofault)

lemma get_bpffs_dir_frame:
  assumes "faults w = []" "get_bpffs_dir w = (Inr d, w')"
  shows "faults w' = []" "fds w' = fds w" "kprogs w' = kprogs w" "bpffs_dir_cache w' = Some d"
proof -
  have "faults w' = [] \<and> fds w' = fds w \<and> kprogs w' = kprogs w \<and> bpffs_dir_cache w' = Some d"
  proof (cases "bpffs_dir_cache w")
    case (Some x)
    with assms show ?thesis by (auto simp: get_bpffs_dir_def)
  next
    case None
    obtain m w1 where f: "find_bpffs w = (m, w1)" by (cases "find_bpffs w")
    have w1: "faults w1 = [] \<and> fds w1 = fds w \<and> kprogs w1 = kprogs w \<and> bpffs_dir_cache w1 = None"
      using f assms(1) None
      by (auto simp: find_bpffs_def bpf_find_mntpt_single_def bpf_is_valid_mntpt_def sys_statfs_def
            with_fault_nofault split: option.splits if_splits)
    show ?thesis
    proof (cases m)
      case None
      with assms f \<open>bpffs_dir_cache w = None\<close> show ?thesis by (auto simp: get_bpffs_dir_def)
    next
      case (Some parent)
      obtain e w2 where mk: "sys_mkdir (parent @ ''/xdp'') w1 = (e, w2)"
        by (cases "sys_mkdir (parent @ ''/xdp'') w1")
      from w1 have f1: "faults w1 = []" by simp
      note fr = sys_mkdir_frame[OF f1 mk]
      from assms f Some mk \<open>bpffs_dir_cache w = None\<close>
      have "d = parent @ ''/xdp'' \<and> w' = w2\<lparr>bpffs_dir_cache := Some (parent @ ''/xdp'')\<rparr>"
        by (auto simp: get_bpffs_dir_def split: if_splits)
      with fr w1 show ?thesis by simp
    qed
  qed
  then show "faults w' = []" "fds w' = fds w" "kprogs w' = kprogs w" "bpffs_dir_cache w' = Some d"
    by simp_all
qed

lemma pin_progs_ok_frame:
  assumes "faults w = []" "pin_progs P before rest err w = Some (0, ps, w')"
  shows "faults w' = [] \<and> fds w' = fds w \<and> kprogs w' = kprogs w \<and>
    bpffs_dir_cache w' = bpffs_dir_cache w \<and>
    (map_of (fs w) q = Some v \<longrightarrow> map_of (fs w') q = Some v)"
  using assms
proof (induction rest arbitrary: before err w)
  case Nil
  then show ?case by simp
next
  case (Cons prog rest)
  let ?buf = "P @ ''/link-prog'' @ fmt_d (int (length before))"
  have lf: "\<not> link_fd prog < 0"
  proof
    assume "link_fd prog < 0"
    with Cons.prems(2) show False by (auto simp: EINVAL_def)
  qed
  have cs: "check_snprintf PATH_MAX ?buf = 0"
  proof (rule ccontr)
    assume "check_snprintf PATH_MAX ?buf \<noteq> 0"
    with lf Cons.prems(2) show False by auto
  qed
  obtain e w1 where pin: "bpf_obj_pin (link_fd prog) ?buf w = (e, w1)"
    by (cases "bpf_obj_pin (link_fd prog) ?buf w")
  have rv0: "rv e = 0"
  proof (rule ccontr)
    assume "rv e \<noteq> 0"
    with lf cs pin Cons.prems(2) show False by auto
  qed
  note fr = bpf_obj_pin_frame[OF Cons.prems(1) pin]
  note sd = strdup_nominal[OF fr(1), of P]
  define w2 where "w2 = (log_sys (SYS_malloc (A_STR P)) w1)\<lparr>heap := A_STR P # heap w1\<rparr>"
  have rec: "pin_progs P (before @ [prog\<lparr>link_pin_path := Some P\<rparr>]) rest 0 w2 = Some (0, ps, w')"
    using Cons.prems(2) lf cs pin rv0 sd by (simp add: w2_def)
  have f2: "faults w2 = []" by (simp add: w2_def fr)
  from Cons.IH[OF f2 rec] fr show ?case by (simp add: w2_def)
qed

lemma pin_multiprog_ok_steps:
  assumes nf: "faults w = []"
    and ok: "pin_multiprog dfd progs w = Some (0, progs', w')"
  obtains dir info j wa wc e wd we where
    "get_bpffs_dir w = (Inr dir, wa)"
    "map_of (fds w) dfd = Some (FD_PROG j)" "map_of (kprogs w) j = Some info"
    "faults wc = []" "fs wc = fs wa"
    "check_snprintf PATH_MAX (dir @ ''/dispatch-'' @ fmt_d (as_int (info_id info))) = 0"
    "sys_mkdir (dir @ ''/dispatch-'' @ fmt_d (as_int (info_id info))) wc = (e, wd)"
    "e = 0 \<or> e = - EEXIST"
    "pin_progs (dir @ ''/dispatch-'' @ fmt_d (as_int (info_id info))) [] progs (rv e) wd
       = Some (0, progs', we)"
    "fs w' = fs we"
    "pin_ready dir info dfd w'"
proof -
  obtain r wa where g: "get_bpffs_dir w = (r, wa)" by (cases "get_bpffs_dir w")
  have "\<exists>dir. r = Inr dir"
  proof (cases r)
    case (Inl e)
    with g ok have "e = 0 \<and> wa = w'" by (simp add: pin_multiprog_def)
    with g Inl nf show ?thesis
      by (auto simp: get_bpffs_dir_def find_bpffs_def check_snprintf_def errno_defs
            split: option.splits prod.splits if_splits)
  next
    case (Inr dir)
    then show ?thesis by simp
  qed
  then obtain dir where r: "r = Inr dir" by blast
  note ga = get_bpffs_dir_frame[OF nf g[unfolded r]]
  obtain ri wb where i: "bpf_obj_get_info_by_fd dfd wa = (ri, wb)"
    by (cases "bpf_obj_get_info_by_fd dfd wa")
  have "\<exists>info j. ri = Inr info \<and> map_of (fds wa) dfd = Some (FD_PROG j) \<and>
          map_of (kprogs wa) j = Some info \<and> wb = log_sys (SYS_bpf_obj_get_info_by_fd dfd) wa"
  proof (cases ri)
    case (Inl e)
    with g r i ok have "rv e = 0" by (simp add: pin_multiprog_def)
    with i Inl ga(1) show ?thesis
      by (auto simp: bpf_obj_get_info_by_fd_def with_fault_nofault rv_def errno_defs
            split: option.splits fdesc.splits if_splits)
  next
    case (Inr info)
    with i ga(1) show ?thesis
      by (auto simp: bpf_obj_get_info_by_fd_def with_fault_nofault
            split: option.splits fdesc.splits if_splits)
  qed
  then obtain info j where ri: "ri = Inr info" and fdj: "map_of (fds wa) dfd = Some (FD_PROG j)"
    and kj: "map_of (kprogs wa) j = Some info"
    and wb: "wb = log_sys (SYS_bpf_obj_get_info_by_fd dfd) wa"
    by blast
  have b: "faults wb = []" "fds wb = fds wa" "kprogs wb = kprogs wa" "bpffs_dir_cache wb = Some dir"
      "fs wb = fs wa"
    by (simp_all add: wb ga)
  obtain lock_fd wc where l: "xdp_lock_acquire wb = (lock_fd, wc)" by (cases "xdp_lock_acquire wb")
  have lge: "\<not> lock_fd < 0"
  proof
    assume "lock_fd < 0"
    with g r i ri l ok show False by (simp add: pin_multiprog_def)
  qed
  have gb: "get_bpffs_dir wb = (Inr dir, wb)" by (simp add: get_bpffs_dir_def b)
  have c: "map_of (fs wb) dir = Some I_DIR \<and> lock_fd = fresh_fd (fds wb) \<and> faults wc = [] \<and>
      fs wc = fs wb \<and> kprogs wc = kprogs wb \<and> bpffs_dir_cache wc = Some dir \<and>
      fds wc = (lock_fd, FD_DIR dir) # fds wb"
    using l lge b(1,4)
    by (auto simp: xdp_lock_acquire_def gb sys_open_dir_def sys_flock_def sys_close_def
          with_fault_nofault fd_install_def errno_defs
          split: option.splits inode.splits if_splits prod.splits)
  define P where "P = dir @ ''/dispatch-'' @ fmt_d (as_int (info_id info))"
  have pm: "pin_multiprog dfd progs w =
      (if check_snprintf PATH_MAX P \<noteq> 0
       then Some (check_snprintf PATH_MAX P, progs, snd (xdp_lock_release lock_fd wc))
       else (case sys_mkdir P wc of
               (e, w4) \<Rightarrow>
                 if e \<noteq> 0 \<and> e \<noteq> - EEXIST
                 then Some (e, progs, snd (xdp_lock_release lock_fd w4))
                 else (case pin_progs P [] progs (rv e) w4 of
                         None \<Rightarrow> None
                       | Some (err, progs', w5) \<Rightarrow>
                           Some (err, progs', snd (xdp_lock_release lock_fd w5)))))"
    unfolding pin_multiprog_def P_def
    by (simp only: g r i ri l prod.case sum.case lge if_False)
  have cs: "check_snprintf PATH_MAX P = 0"
  proof (rule ccontr)
    assume "check_snprintf PATH_MAX P \<noteq> 0"
    with pm ok show False by simp
  qed
  obtain e wd where mk: "sys_mkdir P wc = (e, wd)" by (cases "sys_mkdir P wc")
  have fc: "faults wc = []" using c by simp
  note fm = sys_mkdir_frame[OF fc mk]
  have "\<exists>we. pin_progs P [] progs (rv e) wd = Some (0, progs', we) \<and>
          w' = snd (xdp_lock_release lock_fd we)"
    using pm ok cs mk by (auto split: if_splits option.splits)
  then obtain we where pp: "pin_progs P [] progs (rv e) wd = Some (0, progs', we)"
    and w': "w' = snd (xdp_lock_release lock_fd we)"
    by blast
  note fp = pin_progs_ok_frame[OF fm(1) pp]
  have fe: "faults we = []" using fp by simp
  note rel = xdp_lock_release_nominal[OF fe, of lock_fd]
  have d1: "map_of (fs wd) dir = Some I_DIR" using c fm(5)[of dir I_DIR] by simp
  have d2: "map_of (fs we) dir = Some I_DIR" using fp[of dir I_DIR] d1 by simp
  have fde: "fds we = (lock_fd, FD_DIR dir) # fds wa" using fp fm c b by simp
  have ne: "dfd \<noteq> lock_fd" using fresh_fd_not_open[OF fdj] c b by auto
  have "faults w' = []" "bpffs_dir_cache w' = Some dir" "map_of (fs w') dir = Some I_DIR"
      "map_of (fds w') dfd = Some (FD_PROG j)" "map_of (kprogs w') j = Some info"
    unfolding w' using rel fp fm c b d2 fde ne fdj kj by simp_all
  then have rd: "pin_ready dir info dfd w'" unfolding pin_ready_def by blast
  have e01: "e = 0 \<or> e = - EEXIST"
  proof (rule ccontr)
    assume "\<not> (e = 0 \<or> e = - EEXIST)"
    with pm ok cs mk show False by simp
  qed
  have fsw': "fs w' = fs we" unfolding w' using rel by simp
  have fswc: "fs wc = fs wa" using c b by simp
  have fdj': "map_of (fds w) dfd = Some (FD_PROG j)" using fdj ga by simp
  have kj': "map_of (kprogs w) j = Some info" using kj ga by simp
  from that[OF g[unfolded r] fdj' kj' fc fswc cs[unfolded P_def] mk[unfolded P_def] e01
      pp[unfolded P_def] fsw' rd]
  show thesis .
qed

lemma pin_multiprog_ok_ready:
  assumes nf: "faults w = []"
    and ok: "pin_multiprog dfd progs w = Some (0, progs', w')"
  shows "\<exists>dir info. pin_ready dir info dfd w'"
  using pin_multiprog_ok_steps[OF nf ok] by metis














lemma unlink_entries_append:
  "unlink_entries P before w = (0, w1) \<Longrightarrow>
   unlink_entries P (before @ rest) w = unlink_entries P rest w1"
proof (induction before arbitrary: w)
  case Nil
  then show ?case by simp
next
  case (Cons d before)
  show ?case
  proof (cases "strcmp ''.'' d = 0 \<or> strcmp ''..'' d = 0")
    case True
    with Cons show ?thesis by simp
  next
    case False
    note nd = this
    show ?thesis
    proof (cases "check_snprintf PATH_MAX (P @ ''/'' @ d) \<noteq> 0")
      case True
      with nd Cons.prems show ?thesis by simp
    next
      case False
      obtain e w' where u: "sys_unlink (P @ ''/'' @ d) w = (e, w')"
        by (cases "sys_unlink (P @ ''/'' @ d) w")
      show ?thesis
      proof (cases "e = 0")
        case True
        with nd False u Cons.prems have "unlink_entries P before w' = (0, w1)" by simp
        from Cons.IH[OF this] nd False u True show ?thesis by simp
      next
        case False
        with nd \<open>\<not> check_snprintf PATH_MAX (P @ ''/'' @ d) \<noteq> 0\<close> u Cons.prems
        show ?thesis by simp
      qed
    qed
  qed
qed

















lemma unlink_entries_first_error:
  assumes "unlink_entries P before wa = (0, wb)"
    and "strcmp ''.'' d \<noteq> 0" "strcmp ''..'' d \<noteq> 0"
    and "check_snprintf PATH_MAX (P @ ''/'' @ d) = 0"
    and "sys_unlink (P @ ''/'' @ d) wb = (e, wc)" "e \<noteq> 0"
  shows "unlink_entries P (before @ d # after) wa = (e, wc)"
proof -
  have "unlink_entries P (d # after) wb = (e, wc)"
    using assms(2-6) by simp
  with unlink_entries_append[OF assms(1), of "d # after"] show ?thesis by simp
qed


subsection \<open>Pin and unpin\<close>









end
